theory Spec2Isabelle
  imports Main "HOL-Library.Word"
begin

section \<open>Resources, events and the external engines\<close>

text \<open>
  The two bridges (\<^verbatim>\<open>whisper_bridge.cpp\<close>, \<^verbatim>\<open>llama_bridge.cpp\<close>) keep their
  engine objects in file-static pointers and drive two external libraries. A pointer is
  modelled as \<open>handle option\<close> (\<open>None\<close> is \<^verbatim>\<open>nullptr\<close>); the process heap is the set of
  live (allocated, not yet freed) engine objects, each tagged with its kind. Every call
  into a library, every log line and every callback invocation is appended to a trace,
  so that the order of effects can be stated.
\<close>

type_synonym handle = nat
type_synonym llama_token = int

text \<open>A C \<^verbatim>\<open>int\<close> whose range matters is a 32-bit word, read as a signed number by
  \<open>sint\<close>; arithmetic on it wraps. The conversion \<^verbatim>\<open>(int)\<close> of a size is \<open>of_nat\<close>, which
  keeps the low 32 bits.\<close>

type_synonym c_int = "32 word"

datatype kind = WhisperContext | LlamaModel | LlamaContext | LlamaSampler

datatype sampler_stage = Top_p | Temp | Dist

datatype event =
    Load_attempt kind string
  | Alloc kind handle
  | Release kind handle
  | Whisper_full handle int
  | Memory_clear handle
  | Tokenize_call nat int
  | Decode_call handle "llama_token list" int
  | Chain_add handle sampler_stage
  | Sample_call handle llama_token
  | On_token string
  | Log_error string
  | Log_info string

record 'e world =
  live :: "(kind \<times> handle) set"
  next_handle :: handle
  engine :: 'e
  trace :: "event list"

text \<open>
  The parameter structs the bridges fill in. Only the fields the source assigns are kept;
  \<^verbatim>\<open>(uint32_t)\<close> casts are conversions to 32-bit words.
\<close>

record whisper_context_params =
  use_gpu :: bool

record whisper_full_params =
  language :: string
  translate :: bool
  no_context :: bool
  single_segment :: bool
  print_realtime :: bool
  print_progress :: bool
  print_timestamps :: bool
  suppress_blank :: bool
  n_threads :: int
  audio_ctx :: int

record llama_model_params =
  n_gpu_layers :: int

record llama_context_params =
  n_ctx :: "32 word"
  cp_n_threads :: "32 word"
  n_threads_batch :: "32 word"

text \<open>
  The libraries themselves are outside the repository. Their behaviour is a parameter:
  a record of functions over an opaque engine state \<open>'e\<close> (model weights, key-value
  memory, random generator, the file system as the loader sees it). Whether a load
  succeeds, what a decode returns and which token is sampled are all decided by these
  functions; the heap discipline (a successful load allocates a fresh object, a free
  releases it) is fixed by the model below. \<open>'s\<close> is the type of one PCM sample.
\<close>

record ('e, 's) backend =
  whisper_load_ok :: "string \<Rightarrow> whisper_context_params \<Rightarrow> 'e \<Rightarrow> bool \<times> 'e"
  whisper_run :: "handle \<Rightarrow> whisper_full_params \<Rightarrow> 's list \<Rightarrow> int \<Rightarrow> 'e \<Rightarrow> int \<times> 'e"
  whisper_n_segments :: "handle \<Rightarrow> 'e \<Rightarrow> int"
  whisper_segment_text :: "handle \<Rightarrow> int \<Rightarrow> 'e \<Rightarrow> string option"
  llama_load_ok :: "string \<Rightarrow> llama_model_params \<Rightarrow> 'e \<Rightarrow> bool \<times> 'e"
  llama_context_ok :: "handle \<Rightarrow> llama_context_params \<Rightarrow> 'e \<Rightarrow> bool \<times> 'e"
  llama_clear :: "handle \<Rightarrow> 'e \<Rightarrow> 'e"
  llama_tokens :: "handle \<Rightarrow> string \<Rightarrow> c_int \<Rightarrow> c_int \<Rightarrow> 'e \<Rightarrow> c_int \<times> llama_token list"
  llama_run_decode :: "handle \<Rightarrow> llama_token list \<Rightarrow> 'e \<Rightarrow> int \<times> 'e"
  llama_sample :: "handle \<Rightarrow> handle \<Rightarrow> 'e \<Rightarrow> llama_token \<times> 'e"
  llama_is_eog :: "handle \<Rightarrow> llama_token \<Rightarrow> bool"
  llama_piece :: "handle \<Rightarrow> llama_token \<Rightarrow> int \<times> string"

subsection \<open>Heap and trace primitives\<close>

definition emit :: "event \<Rightarrow> 'e world \<Rightarrow> 'e world" where
  "emit ev w = w\<lparr>trace := trace w @ [ev]\<rparr>"

definition alloc :: "kind \<Rightarrow> 'e world \<Rightarrow> handle \<times> 'e world" where
  "alloc k w =
     (next_handle w,
      w\<lparr>live := insert (k, next_handle w) (live w),
        next_handle := Suc (next_handle w),
        trace := trace w @ [Alloc k (next_handle w)]\<rparr>)"

definition release :: "kind \<Rightarrow> handle \<Rightarrow> 'e world \<Rightarrow> 'e world" where
  "release k h w = w\<lparr>live := live w - {(k, h)}, trace := trace w @ [Release k h]\<rparr>"

definition live_of :: "kind \<Rightarrow> 'e world \<Rightarrow> handle set" where
  "live_of k w = {h. (k, h) \<in> live w}"

text \<open>Handles are handed out in increasing order; a world is well formed when every
  live object was handed out already.\<close>

definition wf_world :: "'e world \<Rightarrow> bool" where
  "wf_world w = (\<forall>(k, h) \<in> live w. h < next_handle w)"

subsection \<open>The calls into whisper.cpp\<close>

definition whisper_free :: "handle \<Rightarrow> 'e world \<Rightarrow> 'e world" where
  "whisper_free h w = release WhisperContext h w"

definition whisper_init_from_file_with_params ::
  "('e, 's) backend \<Rightarrow> string \<Rightarrow> whisper_context_params \<Rightarrow> 'e world \<Rightarrow> handle option \<times> 'e world" where
  "whisper_init_from_file_with_params B path cp w =
     (let w1 = emit (Load_attempt WhisperContext path) w;
          (ok, e) = whisper_load_ok B path cp (engine w1);
          w2 = w1\<lparr>engine := e\<rparr>
      in if ok then (let (h, w3) = alloc WhisperContext w2 in (Some h, w3))
         else (None, w2))"

definition whisper_full ::
  "('e, 's) backend \<Rightarrow> handle \<Rightarrow> whisper_full_params \<Rightarrow> 's list \<Rightarrow> int \<Rightarrow> 'e world \<Rightarrow> int \<times> 'e world" where
  "whisper_full B c wp pcm n_samples w =
     (let (st, e) = whisper_run B c wp pcm n_samples (engine w)
      in (st, emit (Whisper_full c st) (w\<lparr>engine := e\<rparr>)))"

section \<open>The ASR bridge: whisper\_bridge.cpp\<close>

record whisper_globals =
  w_g_ctx :: "handle option"
  w_g_threads :: int

definition whisper_globals_init :: whisper_globals where
  "whisper_globals_init = \<lparr>w_g_ctx = None, w_g_threads = 4\<rparr>"

definition whisper_bridge_init ::
  "('e, 's) backend \<Rightarrow> string \<Rightarrow> int \<Rightarrow> whisper_globals \<Rightarrow> 'e world
     \<Rightarrow> bool \<times> whisper_globals \<times> 'e world" where
  "whisper_bridge_init B model_path n_thr g w =
     (let (g1, w1) = (case w_g_ctx g of
                        Some h \<Rightarrow> (g\<lparr>w_g_ctx := None\<rparr>, whisper_free h w)
                      | None \<Rightarrow> (g, w));
          g2 = g1\<lparr>w_g_threads := n_thr\<rparr>;
          cp = \<lparr>use_gpu = False\<rparr>;
          (r, w2) = whisper_init_from_file_with_params B model_path cp w1;
          g3 = g2\<lparr>w_g_ctx := r\<rparr>
      in case r of
           None \<Rightarrow> (False, g3, emit (Log_error (''Failed to load: '' @ model_path)) w2)
         | Some h \<Rightarrow> (True, g3, emit (Log_info (''Whisper model loaded OK from '' @ model_path)) w2))"

text \<open>The segment loop \<^verbatim>\<open>for (int i = 0; i < n; ++i) { seg = ...; if (seg) out += seg; }\<close>.\<close>

function segments_from ::
  "('e, 's) backend \<Rightarrow> handle \<Rightarrow> 'e \<Rightarrow> int \<Rightarrow> int \<Rightarrow> string \<Rightarrow> string" where
  "segments_from B c e n i out =
     (if i < n
      then segments_from B c e n (i + 1)
             (case whisper_segment_text B c i e of None \<Rightarrow> out | Some seg \<Rightarrow> out @ seg)
      else out)"
  by pat_completeness auto
termination
  by (relation "measure (\<lambda>(B, c, e, n, i, out). nat (n - i))") auto

declare segments_from.simps [simp del]

definition strip_leading :: "string \<Rightarrow> string" where
  "strip_leading out = (if out \<noteq> [] \<and> out ! 0 = CHR '' '' then drop 1 out else out)"

text \<open>The decoding parameters \<^verbatim>\<open>wp\<close> that \<^verbatim>\<open>whisper_bridge_transcribe\<close> fills in
  (greedy sampling defaults, then the assignments of the source).\<close>

definition transcribe_params :: "string \<Rightarrow> int \<Rightarrow> whisper_full_params" where
  "transcribe_params lang thr =
     \<lparr>language = lang, translate = False, no_context = False,
      single_segment = True, print_realtime = True, print_progress = False,
      print_timestamps = False, suppress_blank = True,
      n_threads = thr, audio_ctx = 0\<rparr>"

definition whisper_bridge_transcribe ::
  "('e, 's) backend \<Rightarrow> 's list \<Rightarrow> int \<Rightarrow> string \<Rightarrow> whisper_globals \<Rightarrow> 'e world
     \<Rightarrow> string \<times> whisper_globals \<times> 'e world" where
  "whisper_bridge_transcribe B pcm n_samples lang g w =
     (case w_g_ctx g of
        None \<Rightarrow> ('''', g, w)
      | Some c \<Rightarrow>
          (let wp = transcribe_params lang (w_g_threads g);
               (st, w1) = whisper_full B c wp pcm n_samples w
           in if st \<noteq> 0 then ('''', g, emit (Log_error ''whisper_full() failed'') w1)
              else (let n = whisper_n_segments B c (engine w1);
                        out = segments_from B c (engine w1) n 0 ''''
                    in (strip_leading out, g, w1))))"

definition whisper_bridge_free :: "whisper_globals \<Rightarrow> 'e world \<Rightarrow> whisper_globals \<times> 'e world" where
  "whisper_bridge_free g w =
     (case w_g_ctx g of
        Some h \<Rightarrow> (g\<lparr>w_g_ctx := None\<rparr>, whisper_free h w)
      | None \<Rightarrow> (g, w))"

subsection \<open>The calls into llama.cpp\<close>

definition llama_model_load_from_file ::
  "('e, 's) backend \<Rightarrow> string \<Rightarrow> llama_model_params \<Rightarrow> 'e world \<Rightarrow> handle option \<times> 'e world" where
  "llama_model_load_from_file B path mp w =
     (let w1 = emit (Load_attempt LlamaModel path) w;
          (ok, e) = llama_load_ok B path mp (engine w1);
          w2 = w1\<lparr>engine := e\<rparr>
      in if ok then (let (h, w3) = alloc LlamaModel w2 in (Some h, w3))
         else (None, w2))"

definition llama_init_from_model ::
  "('e, 's) backend \<Rightarrow> handle \<Rightarrow> llama_context_params \<Rightarrow> 'e world \<Rightarrow> handle option \<times> 'e world" where
  "llama_init_from_model B m cp w =
     (let (ok, e) = llama_context_ok B m cp (engine w);
          w1 = w\<lparr>engine := e\<rparr>
      in if ok then (let (h, w2) = alloc LlamaContext w1 in (Some h, w2))
         else (None, w1))"

definition llama_model_free :: "handle \<Rightarrow> 'e world \<Rightarrow> 'e world" where
  "llama_model_free m w = release LlamaModel m w"

definition llama_free :: "handle \<Rightarrow> 'e world \<Rightarrow> 'e world" where
  "llama_free c w = release LlamaContext c w"

definition llama_memory_clear :: "('e, 's) backend \<Rightarrow> handle \<Rightarrow> 'e world \<Rightarrow> 'e world" where
  "llama_memory_clear B c w = emit (Memory_clear c) (w\<lparr>engine := llama_clear B c (engine w)\<rparr>)"

text \<open>
  A \<^verbatim>\<open>std::vector<llama_token>\<close> is a list; \<^verbatim>\<open>resize\<close> truncates or pads with zeros.
  The tokenizer writes into the buffer it is given and cannot change its size: the
  tokens it reports are laid over the front of the buffer. It receives the length of the
  text and the capacity of the buffer as \<^verbatim>\<open>int\<close>s (the casts \<^verbatim>\<open>(int)prompt.size()\<close> and
  \<^verbatim>\<open>(int)toks.size()\<close> of the source) and returns its count as an \<^verbatim>\<open>int\<close>. The event of
  a call records the real size of the buffer and the count as a signed number.
\<close>

definition resize :: "nat \<Rightarrow> llama_token list \<Rightarrow> llama_token list" where
  "resize k xs = take k xs @ replicate (k - length xs) 0"

definition overwrite :: "llama_token list \<Rightarrow> llama_token list \<Rightarrow> llama_token list" where
  "overwrite buf written = take (length buf) (written @ drop (length written) buf)"

definition llama_tokenize ::
  "('e, 's) backend \<Rightarrow> handle \<Rightarrow> string \<Rightarrow> c_int \<Rightarrow> llama_token list \<Rightarrow> 'e world
     \<Rightarrow> c_int \<times> llama_token list \<times> 'e world" where
  "llama_tokenize B vocab text text_len buf w =
     (let (n, written) = llama_tokens B vocab text text_len (of_nat (length buf)) (engine w)
      in (n, overwrite buf written, emit (Tokenize_call (length buf) (sint n)) w))"

definition llama_decode ::
  "('e, 's) backend \<Rightarrow> handle \<Rightarrow> llama_token list \<Rightarrow> 'e world \<Rightarrow> int \<times> 'e world" where
  "llama_decode B c batch w =
     (let (st, e) = llama_run_decode B c batch (engine w)
      in (st, emit (Decode_call c batch st) (w\<lparr>engine := e\<rparr>)))"

definition llama_sampler_chain_init :: "'e world \<Rightarrow> handle \<times> 'e world" where
  "llama_sampler_chain_init w = alloc LlamaSampler w"

definition llama_sampler_chain_add :: "handle \<Rightarrow> sampler_stage \<Rightarrow> 'e world \<Rightarrow> 'e world" where
  "llama_sampler_chain_add smpl stage w = emit (Chain_add smpl stage) w"

definition llama_sampler_sample ::
  "('e, 's) backend \<Rightarrow> handle \<Rightarrow> handle \<Rightarrow> 'e world \<Rightarrow> llama_token \<times> 'e world" where
  "llama_sampler_sample B smpl c w =
     (let (tok, e) = llama_sample B smpl c (engine w)
      in (tok, emit (Sample_call smpl tok) (w\<lparr>engine := e\<rparr>)))"

definition llama_sampler_free :: "handle \<Rightarrow> 'e world \<Rightarrow> 'e world" where
  "llama_sampler_free smpl w = release LlamaSampler smpl w"

text \<open>The callback \<^verbatim>\<open>on_token\<close> receives one fragment; its invocation is an event.
  The callback is the caller's code: it is taken to return, and not to call back into
  the bridge (the bridge is not reentrant), so it leaves the globals and the heap alone.\<close>

definition on_token :: "string \<Rightarrow> 'e world \<Rightarrow> 'e world" where
  "on_token fragment w = emit (On_token fragment) w"

section \<open>The translation bridge: llama\_bridge.cpp\<close>

text \<open>Log lines are events carrying the fixed text of the message (the success line of
  \<^verbatim>\<open>llama_bridge_init\<close> also prints hardware features, left out here).\<close>

record llama_globals =
  g_model :: "handle option"
  l_g_ctx :: "handle option"
  l_g_threads :: int

definition llama_globals_init :: llama_globals where
  "llama_globals_init = \<lparr>g_model = None, l_g_ctx = None, l_g_threads = 4\<rparr>"

definition llama_bridge_init ::
  "('e, 's) backend \<Rightarrow> string \<Rightarrow> int \<Rightarrow> int \<Rightarrow> llama_globals \<Rightarrow> 'e world
     \<Rightarrow> bool \<times> llama_globals \<times> 'e world" where
  "llama_bridge_init B model_path n_thr ctx_len g w =
     (let g1 = g\<lparr>l_g_threads := n_thr\<rparr>;
          mp = \<lparr>n_gpu_layers = 0\<rparr>;
          (mo, w1) = llama_model_load_from_file B model_path mp w;
          g2 = g1\<lparr>g_model := mo\<rparr>
      in case mo of
           None \<Rightarrow> (False, g2, emit (Log_error (''Failed to load: '' @ model_path)) w1)
         | Some m \<Rightarrow>
             (let cp = \<lparr>n_ctx = word_of_int ctx_len, cp_n_threads = word_of_int n_thr,
                        n_threads_batch = word_of_int n_thr\<rparr>;
                  (co, w2) = llama_init_from_model B m cp w1;
                  g3 = g2\<lparr>l_g_ctx := co\<rparr>
              in case co of
                   None \<Rightarrow>
                     (let w3 = emit (Log_error ''Failed to create context'') w2;
                          w4 = llama_model_free m w3
                      in (False, g3\<lparr>g_model := None\<rparr>, w4))
                 | Some c \<Rightarrow> (True, g3, emit (Log_info ''Model loaded.'') w2)))"

text \<open>The streaming loop \<^verbatim>\<open>for (int i = 0; i < 512; ++i) { ... }\<close> of
  \<^verbatim>\<open>llama_bridge_translate\<close>, from iteration \<open>i\<close> on. The detokenizer returns a
  length and the bytes it wrote into \<^verbatim>\<open>piece\<close> (256 bytes);
  \<^verbatim>\<open>std::string(piece, len)\<close> is the first \<open>len\<close> of them.\<close>

function decode_loop ::
  "('e, 's) backend \<Rightarrow> handle \<Rightarrow> handle \<Rightarrow> handle \<Rightarrow> int \<Rightarrow> 'e world \<Rightarrow> 'e world" where
  "decode_loop B c vocab smpl i w =
     (if i < 512 then
        (let (tok, w1) = llama_sampler_sample B smpl c w
         in if llama_is_eog B vocab tok then w1
            else (let (len, piece) = llama_piece B vocab tok;
                      w2 = (if len > 0 then on_token (take (nat len) piece) w1 else w1);
                      (st, w3) = llama_decode B c [tok] w2
                  in if st \<noteq> 0 then w3
                     else decode_loop B c vocab smpl (i + 1) w3))
      else w)"
  by pat_completeness auto
termination
  by (relation "measure (\<lambda>(B, c, vocab, smpl, i, w). nat (512 - i))") auto

declare decode_loop.simps [simp del]

text \<open>
  How a call of \<^verbatim>\<open>llama_bridge_translate\<close> ends: it returns, or
  \<^verbatim>\<open>toks.resize(-n)\<close> throws \<^verbatim>\<open>std::length_error\<close>, which nothing in the bridge catches.
  That happens when the first count is the least \<^verbatim>\<open>int\<close>: its negation wraps to itself,
  stays negative, and as a size is beyond what a vector can hold. For every other
  negative count the negation is a positive \<^verbatim>\<open>int\<close> and the buffer gets that size
  (the allocation is taken to succeed). The globals and the world at the throw are part
  of the result.
\<close>

datatype outcome = Returned | Threw_length_error

definition llama_bridge_translate ::
  "('e, 's) backend \<Rightarrow> string \<Rightarrow> llama_globals \<Rightarrow> 'e world
     \<Rightarrow> outcome \<times> llama_globals \<times> 'e world" where
  "llama_bridge_translate B prompt g w =
     (case (l_g_ctx g, g_model g) of
        (Some c, Some m) \<Rightarrow>
          (let w1 = llama_memory_clear B c w;
               vocab = m;
               toks0 = replicate (length prompt + 64) 0;
               (n0, toks1, w2) = llama_tokenize B vocab prompt (of_nat (length prompt)) toks0 w1
           in if sint n0 < 0 \<and> sint (- n0) < 0 then (Threw_length_error, g, w2)
              else
               (let (n, toks2, w3) =
                      (if sint n0 < 0
                       then llama_tokenize B vocab prompt (of_nat (length prompt))
                              (resize (nat (sint (- n0))) toks1) w2
                       else (n0, toks1, w2))
                in if sint n \<le> 0 then (Returned, g, emit (Log_error ''Tokenization failed'') w3)
                   else (let toks = resize (nat (sint n)) toks2;
                             (st, w4) = llama_decode B c toks w3
                         in if st \<noteq> 0
                            then (Returned, g, emit (Log_error ''Prefill failed'') w4)
                            else (let (smpl, w5) = llama_sampler_chain_init w4;
                                      w6 = llama_sampler_chain_add smpl Top_p w5;
                                      w7 = llama_sampler_chain_add smpl Temp w6;
                                      w8 = llama_sampler_chain_add smpl Dist w7;
                                      w9 = decode_loop B c vocab smpl 0 w8
                                  in (Returned, g, llama_sampler_free smpl w9)))))
      | _ \<Rightarrow> (Returned, g, w))"

definition llama_bridge_free :: "llama_globals \<Rightarrow> 'e world \<Rightarrow> llama_globals \<times> 'e world" where
  "llama_bridge_free g w =
     (let (g1, w1) = (case l_g_ctx g of
                        Some c \<Rightarrow> (g\<lparr>l_g_ctx := None\<rparr>, llama_free c w)
                      | None \<Rightarrow> (g, w))
      in case g_model g1 of
           Some m \<Rightarrow> (g1\<lparr>g_model := None\<rparr>, llama_model_free m w1)
         | None \<Rightarrow> (g1, w1))"

section \<open>Observations on traces\<close>

fun is_on_token :: "event \<Rightarrow> bool" where
  "is_on_token (On_token s) = True"
| "is_on_token _ = False"

fun is_sample :: "event \<Rightarrow> bool" where
  "is_sample (Sample_call s t) = True"
| "is_sample _ = False"


fun is_alloc :: "event \<Rightarrow> bool" where
  "is_alloc (Alloc k h) = True"
| "is_alloc _ = False"

fun is_release :: "event \<Rightarrow> bool" where
  "is_release (Release k h) = True"
| "is_release _ = False"

text \<open>The three kinds of event the streaming loop produces.\<close>

fun is_loop_event :: "event \<Rightarrow> bool" where
  "is_loop_event (Sample_call s t) = True"
| "is_loop_event (On_token s) = True"
| "is_loop_event (Decode_call c b st) = True"
| "is_loop_event _ = False"

text \<open>A sampling step whose token is an end-of-generation marker of vocabulary \<open>v\<close>, and
  the part of a trace from the first such step on.\<close>

fun eog_sample :: "('e, 's) backend \<Rightarrow> handle \<Rightarrow> event \<Rightarrow> bool" where
  "eog_sample B v (Sample_call s tok) = llama_is_eog B v tok"
| "eog_sample B v _ = False"

definition from_eog :: "('e, 's) backend \<Rightarrow> handle \<Rightarrow> event list \<Rightarrow> event list" where
  "from_eog B v evs = dropWhile (\<lambda>ev. \<not> eog_sample B v ev) evs"

definition loop_events_ok ::
  "('e, 's) backend \<Rightarrow> handle \<Rightarrow> handle \<Rightarrow> nat \<Rightarrow> event list \<Rightarrow> bool" where
  "loop_events_ok B v s k evs =
     (length (filter is_on_token evs) \<le> k \<and> length (filter is_sample evs) \<le> k \<and>
      list_all is_loop_event evs \<and>
      (from_eog B v evs = [] \<or> (\<exists>tok. from_eog B v evs = [Sample_call s tok])))"

text \<open>The events of the tokenization stage of \<^verbatim>\<open>llama_bridge_translate\<close> (memory clear,
  first tokenizer call, the retry when the first count is negative and its negation is
  a size), whether the resize throws, and the count the stage ends with, read off the
  tokenizer.\<close>

definition first_count :: "('e, 's) backend \<Rightarrow> handle \<Rightarrow> handle \<Rightarrow> string \<Rightarrow> 'e \<Rightarrow> c_int" where
  "first_count B c m prompt e =
     fst (llama_tokens B m prompt (of_nat (length prompt)) (of_nat (length prompt + 64))
            (llama_clear B c e))"

definition retry_count :: "('e, 's) backend \<Rightarrow> handle \<Rightarrow> handle \<Rightarrow> string \<Rightarrow> 'e \<Rightarrow> c_int" where
  "retry_count B c m prompt e =
     fst (llama_tokens B m prompt (of_nat (length prompt)) (- first_count B c m prompt e)
            (llama_clear B c e))"

definition resize_throws :: "('e, 's) backend \<Rightarrow> handle \<Rightarrow> handle \<Rightarrow> string \<Rightarrow> 'e \<Rightarrow> bool" where
  "resize_throws B c m prompt e =
     (sint (first_count B c m prompt e) < 0 \<and> sint (- first_count B c m prompt e) < 0)"

definition tokenize_prelude ::
  "('e, 's) backend \<Rightarrow> handle \<Rightarrow> handle \<Rightarrow> string \<Rightarrow> 'e \<Rightarrow> event list" where
  "tokenize_prelude B c m prompt e =
     Memory_clear c # Tokenize_call (length prompt + 64) (sint (first_count B c m prompt e)) #
     (if sint (first_count B c m prompt e) < 0 \<and> \<not> resize_throws B c m prompt e
      then [Tokenize_call (nat (sint (- first_count B c m prompt e)))
              (sint (retry_count B c m prompt e))]
      else [])"

definition final_count :: "('e, 's) backend \<Rightarrow> handle \<Rightarrow> handle \<Rightarrow> string \<Rightarrow> 'e \<Rightarrow> int" where
  "final_count B c m prompt e =
     (if sint (first_count B c m prompt e) < 0
      then sint (retry_count B c m prompt e)
      else sint (first_count B c m prompt e))"

text \<open>The text of a finished transcription pass as the interface describes it: the
  texts of segments \<open>0 .. n - 1\<close>, concatenated, a null segment contributing nothing.\<close>

definition segment_text :: "('e, 's) backend \<Rightarrow> handle \<Rightarrow> 'e \<Rightarrow> string" where
  "segment_text B c e =
     concat (map (\<lambda>j. case whisper_segment_text B c (int j) e of None \<Rightarrow> [] | Some seg \<Rightarrow> seg)
               [0..<nat (whisper_n_segments B c e)])"

section \<open>Callers\<close>

text \<open>A caller of the ASR bridge issues a sequence of calls (as the JNI entry points of
  \<^verbatim>\<open>pipeline_jni.cpp\<close> do); \<open>run_calls\<close> threads the globals and the world
  through them and collects what each call returned.\<close>

datatype 's wcall = Call_init string int | Call_transcribe "'s list" int string | Call_free

datatype wresult = Init_result bool | Text_result string | Free_done

fun run_calls ::
  "('e, 's) backend \<Rightarrow> 's wcall list \<Rightarrow> whisper_globals \<Rightarrow> 'e world \<Rightarrow> wresult list" where
  "run_calls B [] g w = []"
| "run_calls B (Call_init path thr # cs) g w =
     (case whisper_bridge_init B path thr g w of
        (ok, g', w') \<Rightarrow> Init_result ok # run_calls B cs g' w')"
| "run_calls B (Call_transcribe pcm n lang # cs) g w =
     (case whisper_bridge_transcribe B pcm n lang g w of
        (txt, g', w') \<Rightarrow> Text_result txt # run_calls B cs g' w')"
| "run_calls B (Call_free # cs) g w =
     (case whisper_bridge_free g w of
        (g', w') \<Rightarrow> Free_done # run_calls B cs g' w')"

text \<open>The state of a fresh process, and a small concrete engine on which the theorems
  below are instantiated: its state counts the sampling steps, the third sampled token
  ends generation, the tokenizer needs a buffer of 100 entries, and only one file name
  per engine loads.\<close>

definition world_init :: "'e \<Rightarrow> 'e world" where
  "world_init e = \<lparr>live = {}, next_handle = 0, engine = e, trace = []\<rparr>"

definition demo_backend :: "(nat, int) backend" where
  "demo_backend =
     \<lparr>whisper_load_ok = (\<lambda>path cp e. (path = ''ggml-base.bin'', e)),
      whisper_run = (\<lambda>c wp pcm n e. (if pcm = [] then 1 else 0, e)),
      whisper_n_segments = (\<lambda>c e. 2),
      whisper_segment_text = (\<lambda>c i e. if i = 0 then Some '' hi'' else None),
      llama_load_ok = (\<lambda>path mp e. (path = ''model.gguf'', e)),
      llama_context_ok = (\<lambda>m cp e. (n_ctx cp \<noteq> 0, e)),
      llama_clear = (\<lambda>c e. 0),
      llama_tokens = (\<lambda>v text len cap e.
         if sint cap < 100 then (- 100, []) else if text = [] then (0, []) else (2, [1, 2])),
      llama_run_decode = (\<lambda>c batch e. (0, e)),
      llama_sample = (\<lambda>s c e. (int e, Suc e)),
      llama_is_eog = (\<lambda>v tok. 2 \<le> tok),
      llama_piece = (\<lambda>v tok. (1, ''a''))\<rparr>"

text \<open>A state of the translation bridge with a model and a context loaded.\<close>

definition demo_globals :: llama_globals where
  "demo_globals = \<lparr>g_model = Some 0, l_g_ctx = Some 1, l_g_threads = 4\<rparr>"

definition demo_world :: "nat world" where
  "demo_world = \<lparr>live = {(LlamaModel, 0), (LlamaContext, 1)}, next_handle = 2, engine = 0, trace = []\<rparr>"

text \<open>A state of the ASR bridge with a context loaded.\<close>

definition demo_asr_globals :: whisper_globals where
  "demo_asr_globals = \<lparr>w_g_ctx = Some 0, w_g_threads = 4\<rparr>"

definition demo_asr_world :: "nat world" where
  "demo_asr_world = \<lparr>live = {(WhisperContext, 0)}, next_handle = 1, engine = 0, trace = []\<rparr>"

text \<open>The same engine with a tokenizer that answers the least \<^verbatim>\<open>int\<close>.\<close>

definition least_count_backend :: "(nat, int) backend" where
  "least_count_backend =
     demo_backend\<lparr>llama_tokens := (\<lambda>v text len cap e. (- 2147483648, []))\<rparr>"

section \<open>Calls without a handle\<close>

text \<open>
  Claim C2. While no ASR handle is loaded, \<^verbatim>\<open>whisper_bridge_transcribe\<close> returns the
  empty string; while the model handle or the context is missing,
  \<^verbatim>\<open>llama_bridge_translate\<close> returns normally and invokes the callback zero times. In
  both cases the globals and the world (heap, engine state, trace) are unchanged.
\<close>

theorem no_handle_is_noop:
  "(w_g_ctx g = None \<longrightarrow> whisper_bridge_transcribe B pcm n_samples lang g w = ('''', g, w)) \<and>
   (l_g_ctx lg = None \<or> g_model lg = None \<longrightarrow>
      llama_bridge_translate B' prompt lg lw = (Returned, lg, lw) \<and>
      filter is_on_token (trace (snd (snd (llama_bridge_translate B' prompt lg lw))))
        = filter is_on_token (trace lw))"
  by (auto simp: whisper_bridge_transcribe_def llama_bridge_translate_def split: option.splits)

theorem no_handle_is_noop_witness:
  "w_g_ctx whisper_globals_init = None \<and>
   whisper_bridge_transcribe demo_backend [1, 2] 2 ''en'' whisper_globals_init (world_init 0)
     = ('''', whisper_globals_init, world_init 0) \<and>
   g_model llama_globals_init = None \<and>
   llama_bridge_translate demo_backend ''Hello'' llama_globals_init (world_init 0)
     = (Returned, llama_globals_init, world_init 0)"
  using no_handle_is_noop [of whisper_globals_init demo_backend "[1, 2]" 2 "''en''" "world_init 0"
      llama_globals_init demo_backend "''Hello''" "world_init 0"]
  by (simp add: whisper_globals_init_def llama_globals_init_def)

section \<open>Freeing twice\<close>

text \<open>
  Claim C9. For both bridges and from any state: after one call of free the handle
  pointer (and, for the translation bridge, the context pointer) is null, and a second
  call of free changes neither the globals nor the world.
\<close>

theorem free_twice:
  "(case whisper_bridge_free g w of (g1, w1) \<Rightarrow>
      w_g_ctx g1 = None \<and> whisper_bridge_free g1 w1 = (g1, w1)) \<and>
   (case llama_bridge_free lg lw of (g1, w1) \<Rightarrow>
      l_g_ctx g1 = None \<and> g_model g1 = None \<and> llama_bridge_free g1 w1 = (g1, w1))"
  by (simp add: whisper_bridge_free_def llama_bridge_free_def split: option.splits)

section \<open>The shape of a translate call\<close>

text \<open>The streaming loop only advances the engine state and appends loop events; from
  iteration \<open>i\<close> it delivers at most \<open>512 - i\<close> fragments, and nothing follows a sampling
  step that drew an end-of-generation token.\<close>

lemma decode_loop_effect:
  "\<exists>e evs. decode_loop B c v s i w = w\<lparr>engine := e, trace := trace w @ evs\<rparr> \<and>
      loop_events_ok B v s (nat (512 - i)) evs"
proof (induction B c v s i w rule: decode_loop.induct)
  case (1 B c v s i w)
  show ?case
  proof (cases "i < 512")
    case False
    then have "decode_loop B c v s i w = w" by (subst decode_loop.simps) simp
    then have "decode_loop B c v s i w = w\<lparr>engine := engine w, trace := trace w @ []\<rparr>" by simp
    moreover have "loop_events_ok B v s (nat (512 - i)) []"
      by (simp add: loop_events_ok_def from_eog_def)
    ultimately show ?thesis by blast
  next
    case lt: True
    obtain tok e1 where smp: "llama_sample B s c (engine w) = (tok, e1)" by (cases "llama_sample B s c (engine w)")
    define w1 where "w1 = w\<lparr>engine := e1, trace := trace w @ [Sample_call s tok]\<rparr>"
    have ss: "llama_sampler_sample B s c w = (tok, w1)"
      by (simp add: llama_sampler_sample_def smp w1_def emit_def)
    show ?thesis
    proof (cases "llama_is_eog B v tok")
      case True
      with lt ss have "decode_loop B c v s i w = w1" by (subst decode_loop.simps) simp
      moreover from True lt have "loop_events_ok B v s (nat (512 - i)) [Sample_call s tok]"
        by (simp add: loop_events_ok_def from_eog_def)
      ultimately show ?thesis unfolding w1_def by blast
    next
      case neog: False
      obtain len piece where pc: "llama_piece B v tok = (len, piece)" by (cases "llama_piece B v tok")
      define cb where "cb = (if len > 0 then [On_token (take (nat len) piece)] else [])"
      define w2 where "w2 = (if len > 0 then on_token (take (nat len) piece) w1 else w1)"
      have w2eq: "w2 = w\<lparr>engine := e1, trace := trace w @ Sample_call s tok # cb\<rparr>"
        by (simp add: w2_def w1_def cb_def on_token_def emit_def)
      obtain st e3 where dc: "llama_run_decode B c [tok] (engine w2) = (st, e3)"
        by (cases "llama_run_decode B c [tok] (engine w2)")
      define w3 where "w3 = w\<lparr>engine := e3, trace := trace w @ Sample_call s tok # cb @ [Decode_call c [tok] st]\<rparr>"
      have ld: "llama_decode B c [tok] w2 = (st, w3)"
        using dc by (simp add: llama_decode_def w3_def emit_def w2eq)
      have cbl: "length (filter is_on_token cb) \<le> 1" "filter is_sample cb = []" "list_all is_loop_event cb"
         "from_eog B v cb = []"
        by (simp_all add: cb_def from_eog_def)
      show ?thesis
      proof (cases "st = 0")
        case False
        with lt ss neog pc ld have "decode_loop B c v s i w = w3"
          by (subst decode_loop.simps) (simp add: w2_def)
        moreover from lt neog cbl have "loop_events_ok B v s (nat (512 - i)) (Sample_call s tok # cb @ [Decode_call c [tok] st])"
          by (simp add: loop_events_ok_def from_eog_def dropWhile_append cb_def)
        ultimately show ?thesis unfolding w3_def by blast
      next
        case st0: True
        from lt ss neog pc ld st0 have step: "decode_loop B c v s i w = decode_loop B c v s (i + 1) w3"
          by (subst decode_loop.simps) (simp add: w2_def)
        from st0 have nst: "\<not> st \<noteq> 0" by simp
        from "1.IH"[OF lt refl ss[symmetric] neog refl pc[symmetric] w2_def refl ld[symmetric] nst]
        obtain e evs where ih: "decode_loop B c v s (i + 1) w3 = w3\<lparr>engine := e, trace := trace w3 @ evs\<rparr>"
          and ok: "loop_events_ok B v s (nat (512 - (i + 1))) evs" by blast
        have "decode_loop B c v s i w = w\<lparr>engine := e, trace := trace w @ (Sample_call s tok # cb @ Decode_call c [tok] st # evs)\<rparr>"
          unfolding step ih by (simp add: w3_def)
        moreover have "loop_events_ok B v s (nat (512 - i)) (Sample_call s tok # cb @ Decode_call c [tok] st # evs)"
          using ok lt neog cbl unfolding loop_events_ok_def
          by (auto simp add: from_eog_def dropWhile_append cb_def)
        ultimately show ?thesis by blast
      qed
    qed
  qed
qed


lemma length_overwrite: "length (overwrite buf wr) = length buf"
  by (simp add: overwrite_def)

lemma length_resize: "length (resize k xs) = k"
  by (simp add: resize_def)

text \<open>Negating a negative C \<^verbatim>\<open>int\<close>: exact for every count but the least, which negation
  leaves as it is.\<close>

lemma sint_neg_least: "sint (n :: c_int) < 0 \<Longrightarrow> (sint (- n) < 0) = (sint n = - 2147483648)"
proof -
  assume neg: "sint n < 0"
  have r: "- 2147483648 \<le> sint n" "sint n < 2147483648"
    using sint_ge [of n] sint_lt [of n] by simp_all
  show ?thesis
  proof (cases "sint n = - 2147483648")
    case True
    then have "sint (- n) = - 2147483648"
      by (simp add: sint_word_ariths signed_take_bit_eq_take_bit_minus take_bit_eq_mod)
    with True show ?thesis by simp
  next
    case False
    with r have "sint (- n) = - sint n"
      by (simp add: sint_word_ariths signed_take_bit_int_eq_self_iff)
    with False neg show ?thesis by simp
  qed
qed


lemma of_nat_nat_sint: "0 \<le> sint (k :: c_int) \<Longrightarrow> (of_nat (nat (sint k)) :: c_int) = k"
  by simp

lemma translate_shape:
  fixes B :: "('e, 's) backend" and prompt :: string and w :: "'e world" and c m :: handle
  assumes gc: "l_g_ctx g = Some c" and gm: "g_model g = Some m"
  defines "pre \<equiv> tokenize_prelude B c m prompt (engine w)"
      and "n \<equiv> final_count B c m prompt (engine w)"
      and "thr \<equiv> resize_throws B c m prompt (engine w)"
      and "s \<equiv> next_handle w"
  shows "(thr \<and> (\<exists>e. llama_bridge_translate B prompt g w =
            (Threw_length_error, g, w\<lparr>engine := e, trace := trace w @ pre\<rparr>)))
       \<or> (\<not> thr \<and> n \<le> 0 \<and> (\<exists>e. llama_bridge_translate B prompt g w =
            (Returned, g,
             w\<lparr>engine := e, trace := trace w @ pre @ [Log_error ''Tokenization failed'']\<rparr>)))
       \<or> (\<not> thr \<and> 0 < n \<and> (\<exists>e toks st. st \<noteq> 0 \<and> llama_bridge_translate B prompt g w =
            (Returned, g, w\<lparr>engine := e,
                  trace := trace w @ pre @ [Decode_call c toks st, Log_error ''Prefill failed'']\<rparr>)))
       \<or> (\<not> thr \<and> 0 < n \<and> (\<exists>e toks evs. loop_events_ok B m s 512 evs \<and>
            llama_bridge_translate B prompt g w =
            (Returned, g,
             w\<lparr>live := insert (LlamaSampler, s) (live w) - {(LlamaSampler, s)},
                  next_handle := Suc s, engine := e,
                  trace := trace w @ pre @
                    [Decode_call c toks 0, Alloc LlamaSampler s, Chain_add s Top_p,
                     Chain_add s Temp, Chain_add s Dist] @ evs @ [Release LlamaSampler s]\<rparr>)))"
proof -
  define e1 where "e1 = llama_clear B c (engine w)"
  define toks0 :: "llama_token list" where "toks0 = replicate (length prompt + 64) 0"
  obtain n0 wr0 where tk0:
    "llama_tokens B m prompt (of_nat (length prompt)) (of_nat (length prompt + 64)) e1 = (n0, wr0)"
    by (cases "llama_tokens B m prompt (of_nat (length prompt)) (of_nat (length prompt + 64)) e1")
  obtain n1 wr1 where tk1:
    "llama_tokens B m prompt (of_nat (length prompt)) (- n0) e1 = (n1, wr1)"
    by (cases "llama_tokens B m prompt (of_nat (length prompt)) (- n0) e1")
  have fc: "first_count B c m prompt (engine w) = n0"
    by (simp only: first_count_def e1_def [symmetric] tk0 fst_conv)
  have rc: "retry_count B c m prompt (engine w) = n1"
    by (simp only: retry_count_def fc e1_def [symmetric] tk1 fst_conv)
  have thr_eq: "thr = (sint n0 < 0 \<and> sint (- n0) < 0)"
    by (simp only: thr_def resize_throws_def fc)
  define w1 where "w1 = w\<lparr>engine := e1, trace := trace w @ [Memory_clear c]\<rparr>"
  define toks1 where "toks1 = overwrite toks0 wr0"
  define w2 where "w2 = w\<lparr>engine := e1,
      trace := trace w @ [Memory_clear c, Tokenize_call (length prompt + 64) (sint n0)]\<rparr>"
  define toks2 where
    "toks2 = (if sint n0 < 0 then overwrite (resize (nat (sint (- n0))) toks1) wr1 else toks1)"
  define w3 where "w3 = w\<lparr>engine := e1, trace := trace w @ pre\<rparr>"
  have pre_eq: "pre = Memory_clear c # Tokenize_call (length prompt + 64) (sint n0) #
                  (if sint n0 < 0 \<and> \<not> thr
                   then [Tokenize_call (nat (sint (- n0))) (sint n1)] else [])"
    by (simp only: pre_def tokenize_prelude_def fc rc thr_def)
  have n_eq: "n = (if sint n0 < 0 then sint n1 else sint n0)"
    by (simp only: n_def final_count_def fc rc)
  have mc: "llama_memory_clear B c w = w1"
    by (simp add: llama_memory_clear_def w1_def e1_def emit_def)
  have t0: "llama_tokenize B m prompt (of_nat (length prompt)) (replicate (length prompt + 64) 0) w1
              = (n0, toks1, w2)"
    using tk0 by (simp add: llama_tokenize_def w1_def w2_def toks1_def toks0_def emit_def)
  show ?thesis
  proof (cases thr)
    case True
    then have "llama_bridge_translate B prompt g w = (Threw_length_error, g, w2)"
      unfolding llama_bridge_translate_def gc gm thr_eq
      by (simp only: Let_def mc t0 prod.case option.case if_True simp_thms)
    moreover have "w2 = w\<lparr>engine := e1, trace := trace w @ pre\<rparr>"
      using True by (simp add: w2_def pre_eq thr_eq)
    ultimately show ?thesis using True by metis
  next
    case nthr: False
    have nthr': "\<not> (sint n0 < 0 \<and> sint (- n0) < 0)" using nthr unfolding thr_eq .
    have cap: "sint n0 < 0 \<Longrightarrow> (of_nat (nat (sint (- n0))) :: c_int) = - n0"
      using nthr' by (intro of_nat_nat_sint) simp
    have t1: "(if sint n0 < 0
               then llama_tokenize B m prompt (of_nat (length prompt))
                      (resize (nat (sint (- n0))) toks1) w2
               else (n0, toks1, w2)) = (if sint n0 < 0 then n1 else n0, toks2, w3)"
      using tk1 nthr cap
      by (simp add: llama_tokenize_def w2_def w3_def toks2_def emit_def pre_eq length_resize)
    have unfold1: "llama_bridge_translate B prompt g w =
       (if n \<le> 0 then (Returned, g, emit (Log_error ''Tokenization failed'') w3)
        else (let toks = resize (nat n) toks2;
                  (st, w4) = llama_decode B c toks w3
              in if st \<noteq> 0 then (Returned, g, emit (Log_error ''Prefill failed'') w4)
                 else (let (smpl, w5) = llama_sampler_chain_init w4;
                           w6 = llama_sampler_chain_add smpl Top_p w5;
                           w7 = llama_sampler_chain_add smpl Temp w6;
                           w8 = llama_sampler_chain_add smpl Dist w7;
                           w9 = decode_loop B c m smpl 0 w8
                       in (Returned, g, llama_sampler_free smpl w9))))"
      unfolding llama_bridge_translate_def gc gm n_eq using nthr'
      by (simp only: Let_def mc t0 t1 prod.case option.case if_False if_distrib [of sint] cong: if_cong)
    show ?thesis
    proof (cases "n \<le> 0")
      case True
      then have "llama_bridge_translate B prompt g w =
          (Returned, g, w\<lparr>engine := e1, trace := trace w @ pre @ [Log_error ''Tokenization failed'']\<rparr>)"
        unfolding unfold1 by (simp add: emit_def w3_def)
      with True nthr show ?thesis by blast
    next
      case pos: False
      define toks where "toks = resize (nat n) toks2"
      obtain st e4 where dc: "llama_run_decode B c toks e1 = (st, e4)"
        by (cases "llama_run_decode B c toks e1")
      define w4 where "w4 = w\<lparr>engine := e4, trace := trace w @ pre @ [Decode_call c toks st]\<rparr>"
      have ld: "llama_decode B c toks w3 = (st, w4)"
        using dc by (simp add: llama_decode_def w3_def w4_def emit_def)
      show ?thesis
      proof (cases "st = 0")
        case False
        with pos ld have "llama_bridge_translate B prompt g w =
            (Returned, g, w\<lparr>engine := e4,
               trace := trace w @ pre @ [Decode_call c toks st, Log_error ''Prefill failed'']\<rparr>)"
          unfolding unfold1 by (simp add: toks_def[symmetric] emit_def w4_def)
        moreover from pos have "0 < n" by simp
        ultimately show ?thesis using False nthr by blast
      next
        case st0: True
        define w8 where "w8 = w\<lparr>live := insert (LlamaSampler, s) (live w), next_handle := Suc s,
            engine := e4,
            trace := trace w @ pre @ [Decode_call c toks 0, Alloc LlamaSampler s, Chain_add s Top_p,
                       Chain_add s Temp, Chain_add s Dist]\<rparr>"
        obtain e evs where lp: "decode_loop B c m s 0 w8 = w8\<lparr>engine := e, trace := trace w8 @ evs\<rparr>"
          and ok: "loop_events_ok B m s (nat (512 - 0)) evs"
          using decode_loop_effect[of B c m s 0 w8] by blast
        have "llama_bridge_translate B prompt g w =
                (Returned, g, llama_sampler_free s (decode_loop B c m s 0 w8))"
          unfolding unfold1 using pos ld st0
          by (cases w) (simp add: toks_def[symmetric] llama_sampler_chain_init_def alloc_def
                llama_sampler_chain_add_def emit_def w8_def w4_def s_def)
        then have "llama_bridge_translate B prompt g w =
              (Returned, g,
               w\<lparr>live := insert (LlamaSampler, s) (live w) - {(LlamaSampler, s)},
                    next_handle := Suc s, engine := e,
                    trace := trace w @ pre @
                      [Decode_call c toks 0, Alloc LlamaSampler s, Chain_add s Top_p,
                       Chain_add s Temp, Chain_add s Dist] @ evs @ [Release LlamaSampler s]\<rparr>)"
          unfolding lp by (simp add: llama_sampler_free_def release_def w8_def)
        moreover from ok have "loop_events_ok B m s 512 evs" by simp
        moreover from pos have "0 < n" by simp
        ultimately show ?thesis using nthr by blast
      qed
    qed
  qed
qed

section \<open>Context creation failure\<close>

text \<open>
  Claim C3. When \<^verbatim>\<open>llama_bridge_init\<close> loads the model (handle \<open>m\<close>) and the creation
  of the inference context then fails, the call returns failure, both globals are null
  afterwards, and the freshly loaded model is released before the call returns: it is
  not live in the final world, and the call's events are exactly the load attempt, the
  allocation of \<open>m\<close>, the error log and the release of \<open>m\<close>.
\<close>

theorem context_failure_releases_model:
  assumes ld: "llama_model_load_from_file B path \<lparr>n_gpu_layers = 0\<rparr> w = (Some m, w1)"
      and cf: "llama_init_from_model B m
                 \<lparr>n_ctx = word_of_int ctx_len, cp_n_threads = word_of_int n_thr,
                  n_threads_batch = word_of_int n_thr\<rparr> w1 = (None, w2)"
  shows "\<exists>g' w'. llama_bridge_init B path n_thr ctx_len g w = (False, g', w') \<and>
           g_model g' = None \<and> l_g_ctx g' = None \<and>
           (LlamaModel, m) \<notin> live w' \<and>
           trace w' = trace w @ [Load_attempt LlamaModel path, Alloc LlamaModel m,
                                 Log_error ''Failed to create context'', Release LlamaModel m]"
proof -
  from ld have t1: "trace w1 = trace w @ [Load_attempt LlamaModel path, Alloc LlamaModel m]"
    by (auto simp: llama_model_load_from_file_def alloc_def emit_def Let_def
             split: prod.splits if_splits)
  from cf have t2: "trace w2 = trace w1"
    by (auto simp: llama_init_from_model_def alloc_def Let_def split: prod.splits if_splits)
  show ?thesis
    by (simp add: llama_bridge_init_def ld cf llama_model_free_def release_def emit_def t1 t2)
qed

theorem context_failure_releases_model_witness:
  "llama_model_load_from_file demo_backend ''model.gguf'' \<lparr>n_gpu_layers = 0\<rparr> (world_init 0)
     = (Some 0, \<lparr>live = {(LlamaModel, 0)}, next_handle = 1, engine = 0,
                 trace = [Load_attempt LlamaModel ''model.gguf'', Alloc LlamaModel 0]\<rparr>) \<and>
   fst (llama_init_from_model demo_backend 0
          \<lparr>n_ctx = word_of_int 0, cp_n_threads = word_of_int 4, n_threads_batch = word_of_int 4\<rparr>
          \<lparr>live = {(LlamaModel, 0)}, next_handle = 1, engine = 0,
           trace = [Load_attempt LlamaModel ''model.gguf'', Alloc LlamaModel 0]\<rparr>) = None \<and>
   fst (llama_bridge_init demo_backend ''model.gguf'' 4 0 llama_globals_init (world_init 0)) = False \<and>
   g_model (fst (snd (llama_bridge_init demo_backend ''model.gguf'' 4 0 llama_globals_init (world_init 0))))
     = None \<and>
   (LlamaModel, 0) \<notin>
     live (snd (snd (llama_bridge_init demo_backend ''model.gguf'' 4 0 llama_globals_init (world_init 0)))) \<and>
   trace (snd (snd (llama_bridge_init demo_backend ''model.gguf'' 4 0 llama_globals_init (world_init 0))))
     = [Load_attempt LlamaModel ''model.gguf'', Alloc LlamaModel 0,
        Log_error ''Failed to create context'', Release LlamaModel 0]"
proof -
  let ?w1 = "\<lparr>live = {(LlamaModel, 0)}, next_handle = 1, engine = 0 :: nat,
              trace = [Load_attempt LlamaModel ''model.gguf'', Alloc LlamaModel 0]\<rparr>"
  have ld: "llama_model_load_from_file demo_backend ''model.gguf'' \<lparr>n_gpu_layers = 0\<rparr> (world_init 0)
     = (Some 0, ?w1)"
    by (simp add: llama_model_load_from_file_def demo_backend_def world_init_def emit_def alloc_def)
  have cf: "llama_init_from_model demo_backend 0
                 \<lparr>n_ctx = word_of_int 0, cp_n_threads = word_of_int 4,
                  n_threads_batch = word_of_int 4\<rparr> ?w1 = (None, ?w1)"
    by (simp add: llama_init_from_model_def demo_backend_def)
  from context_failure_releases_model [OF ld cf, of llama_globals_init]
  obtain g' w' where
    "llama_bridge_init demo_backend ''model.gguf'' 4 0 llama_globals_init (world_init 0) = (False, g', w')"
    "g_model g' = None" "(LlamaModel, 0) \<notin> live w'"
    "trace w' = trace (world_init 0 :: nat world) @ [Load_attempt LlamaModel ''model.gguf'', Alloc LlamaModel 0,
                                 Log_error ''Failed to create context'', Release LlamaModel 0]"
    by blast
  then show ?thesis using ld cf by (simp add: world_init_def)
qed

section \<open>Leading space of a transcription\<close>

lemma segments_from_concat:
  "0 \<le> i \<Longrightarrow> segments_from B c e n i out =
     out @ concat (map (\<lambda>j. case whisper_segment_text B c (int j) e of None \<Rightarrow> [] | Some s \<Rightarrow> s) [nat i..<nat n])"
proof (induction B c e n i out rule: segments_from.induct)
  case (1 B c e n i out)
  show ?case
  proof (cases "i < n")
    case True
    with 1(2) have up: "[nat i..<nat n] = nat i # [nat (i + 1)..<nat n]"
      by (simp add: upt_conv_Cons nat_add_distrib)
    from True 1 show ?thesis
      by (subst segments_from.simps) (simp add: up split: option.splits)
  next
    case False
    then show ?thesis by (subst segments_from.simps) simp
  qed
qed

lemma strip_leading_cases:
  "strip_leading out = (case out of [] \<Rightarrow> [] | x # rest \<Rightarrow> if x = CHR '' '' then rest else out)"
  by (cases out) (simp_all add: strip_leading_def)

text \<open>
  Claim C8. After a successful pass (\<^verbatim>\<open>whisper_full\<close> returned 0) the text returned by
  \<^verbatim>\<open>whisper_bridge_transcribe\<close> is the concatenated segment text without its first
  character when that character is a space (exactly one space is removed: what follows
  it is returned as it is), and the concatenated segment text itself otherwise (the
  empty text included).
\<close>

theorem leading_space_stripped:
  assumes gc: "w_g_ctx g = Some c"
      and ok: "whisper_full B c (transcribe_params lang (w_g_threads g)) pcm n_samples w = (0, w1)"
  shows "(\<forall>rest. segment_text B c (engine w1) = CHR '' '' # rest \<longrightarrow>
            fst (whisper_bridge_transcribe B pcm n_samples lang g w) = rest) \<and>
         ((\<nexists>rest. segment_text B c (engine w1) = CHR '' '' # rest) \<longrightarrow>
            fst (whisper_bridge_transcribe B pcm n_samples lang g w) = segment_text B c (engine w1))"
proof -
  have sf: "segments_from B c (engine w1) (whisper_n_segments B c (engine w1)) 0 '''' =
              segment_text B c (engine w1)"
    by (simp add: segments_from_concat segment_text_def)
  have res: "fst (whisper_bridge_transcribe B pcm n_samples lang g w) =
               strip_leading (segment_text B c (engine w1))"
    by (simp add: whisper_bridge_transcribe_def gc ok sf)
  show ?thesis unfolding res strip_leading_cases
    by (cases "segment_text B c (engine w1)") auto
qed

theorem leading_space_stripped_witness:
  "w_g_ctx \<lparr>w_g_ctx = Some 0, w_g_threads = 4\<rparr> = Some 0 \<and>
   segment_text demo_backend 0 0 = '' hi'' \<and>
   fst (whisper_bridge_transcribe demo_backend [1, 2] 2 ''en'' \<lparr>w_g_ctx = Some 0, w_g_threads = 4\<rparr>
          \<lparr>live = {(WhisperContext, 0)}, next_handle = 1, engine = 0, trace = []\<rparr>) = ''hi''"
proof -
  let ?g = "\<lparr>w_g_ctx = Some 0, w_g_threads = 4\<rparr>"
  let ?w = "\<lparr>live = {(WhisperContext, 0)}, next_handle = 1, engine = 0 :: nat, trace = []\<rparr>"
  let ?w1 = "\<lparr>live = {(WhisperContext, 0)}, next_handle = 1, engine = 0 :: nat, trace = [Whisper_full 0 0]\<rparr>"
  have gc: "w_g_ctx ?g = Some 0" by simp
  have ok: "whisper_full demo_backend 0 (transcribe_params ''en'' (w_g_threads ?g)) [1, 2] 2 ?w = (0, ?w1)"
    by (simp add: whisper_full_def demo_backend_def emit_def)
  have st: "segment_text demo_backend 0 (engine ?w1) = CHR '' '' # ''hi''"
    by (simp add: segment_text_def demo_backend_def upt_rec)
  from leading_space_stripped [OF gc ok] st
  have "fst (whisper_bridge_transcribe demo_backend [1, 2] 2 ''en'' ?g ?w) = ''hi''" by blast
  with st show ?thesis by simp
qed

section \<open>Facts about the events of a translate call\<close>


lemma loop_events_no_alloc: "list_all is_loop_event evs \<Longrightarrow> Alloc k h \<notin> set evs"
  by (induction evs) auto

lemma loop_events_no_release: "list_all is_loop_event evs \<Longrightarrow> Release k h \<notin> set evs"
  by (induction evs) auto

lemma prelude_on_token: "filter is_on_token (tokenize_prelude B c m prompt e) = []"
  by (simp add: tokenize_prelude_def)

lemma prelude_sample: "filter is_sample (tokenize_prelude B c m prompt e) = []"
  by (simp add: tokenize_prelude_def)

lemma prelude_from_eog: "from_eog B v (tokenize_prelude B' c m prompt e @ evs) = from_eog B v evs"
  by (simp add: tokenize_prelude_def from_eog_def)

lemma prelude_no_alloc: "Alloc k h \<notin> set (tokenize_prelude B c m prompt e)"
  by (simp add: tokenize_prelude_def)

lemma prelude_no_release: "Release k h \<notin> set (tokenize_prelude B c m prompt e)"
  by (simp add: tokenize_prelude_def)

lemma from_eog_loop_then_release:
  assumes "from_eog B v evs = [] \<or> (\<exists>tok. from_eog B v evs = [Sample_call s tok])"
  shows "from_eog B v (evs @ [Release LlamaSampler s]) = [] \<or>
         (\<exists>tok. from_eog B v (evs @ [Release LlamaSampler s]) = [Sample_call s tok, Release LlamaSampler s])"
  using assms unfolding from_eog_def
  by (auto simp: dropWhile_append dropWhile_eq_Nil_conv)

lemma loop_events_filter_alloc: "list_all is_loop_event evs \<Longrightarrow> filter is_alloc evs = []"
  by (induction evs) (auto elim: is_loop_event.elims)

lemma prelude_filter_alloc: "filter is_alloc (tokenize_prelude B c m prompt e) = []"
  by (simp add: tokenize_prelude_def)

lemma translate_no_handle:
  "l_g_ctx g = None \<or> g_model g = None \<Longrightarrow>
   llama_bridge_translate B prompt g w = (Returned, g, w)"
  by (auto simp: llama_bridge_translate_def split: option.splits)

lemma translate_cases:
  fixes B :: "('e, 's) backend" and prompt :: string and w :: "'e world"
  obtains (idle) "l_g_ctx g = None \<or> g_model g = None"
       "llama_bridge_translate B prompt g w = (Returned, g, w)"
  | (thrown) c m e where "l_g_ctx g = Some c" "g_model g = Some m"
       "resize_throws B c m prompt (engine w)"
       "llama_bridge_translate B prompt g w =
          (Threw_length_error, g,
           w\<lparr>engine := e, trace := trace w @ tokenize_prelude B c m prompt (engine w)\<rparr>)"
  | (tok) c m e where "l_g_ctx g = Some c" "g_model g = Some m"
       "final_count B c m prompt (engine w) \<le> 0"
       "llama_bridge_translate B prompt g w =
          (Returned, g,
           w\<lparr>engine := e, trace := trace w @ tokenize_prelude B c m prompt (engine w) @
                                 [Log_error ''Tokenization failed'']\<rparr>)"
       "\<not> resize_throws B c m prompt (engine w)"
  | (prefill) c m e toks st where "l_g_ctx g = Some c" "g_model g = Some m" "st \<noteq> 0"
       "0 < final_count B c m prompt (engine w)"
       "llama_bridge_translate B prompt g w =
          (Returned, g,
           w\<lparr>engine := e, trace := trace w @ tokenize_prelude B c m prompt (engine w) @
                                 [Decode_call c toks st, Log_error ''Prefill failed'']\<rparr>)"
       "\<not> resize_throws B c m prompt (engine w)"
  | (run) c m e toks evs where "l_g_ctx g = Some c" "g_model g = Some m"
       "0 < final_count B c m prompt (engine w)"
       "loop_events_ok B m (next_handle w) 512 evs"
       "llama_bridge_translate B prompt g w =
          (Returned, g,
           w\<lparr>live := insert (LlamaSampler, next_handle w) (live w) - {(LlamaSampler, next_handle w)},
                next_handle := Suc (next_handle w), engine := e,
                trace := trace w @ tokenize_prelude B c m prompt (engine w) @
                  [Decode_call c toks 0, Alloc LlamaSampler (next_handle w),
                   Chain_add (next_handle w) Top_p, Chain_add (next_handle w) Temp,
                   Chain_add (next_handle w) Dist] @ evs @ [Release LlamaSampler (next_handle w)]\<rparr>)"
       "\<not> resize_throws B c m prompt (engine w)"
proof (cases "l_g_ctx g = None \<or> g_model g = None")
  case True
  then show ?thesis using idle translate_no_handle by blast
next
  case False
  then obtain c m where gc: "l_g_ctx g = Some c" and gm: "g_model g = Some m" by auto
  from translate_shape [OF gc gm, of B prompt w] show ?thesis
    using thrown [OF gc gm] tok [OF gc gm] prefill [OF gc gm] run [OF gc gm] by blast
qed

text \<open>The concrete engine run by hand: one translate call on the prompt \<open>Hello\<close>, and
  one on the engine whose tokenizer answers the least \<^verbatim>\<open>int\<close>.\<close>

lemma demo_fields:
  "llama_clear demo_backend c e = 0"
  "llama_tokens demo_backend v text len cap e =
     (if sint cap < 100 then (- 100, []) else if text = [] then (0, []) else (2, [1, 2]))"
  "llama_run_decode demo_backend c batch e = (0, e)"
  "llama_sample demo_backend s c e = (int e, Suc e)"
  "llama_is_eog demo_backend v tok = (2 \<le> tok)"
  "llama_piece demo_backend v tok = (1, ''a'')"
  by (simp_all add: demo_backend_def)

lemmas demo_calls = demo_fields
        llama_memory_clear_def llama_tokenize_def llama_decode_def llama_sampler_chain_init_def
        llama_sampler_chain_add_def llama_sampler_sample_def llama_sampler_free_def on_token_def
        emit_def alloc_def release_def

lemma demo_loop:
  "decode_loop demo_backend c v s 0 \<lparr>live = L, next_handle = N, engine = 0, trace = T\<rparr> =
     \<lparr>live = L, next_handle = N, engine = 3,
      trace = T @ [Sample_call s 0, On_token ''a'', Decode_call c [0] 0,
                Sample_call s 1, On_token ''a'', Decode_call c [1] 0,
                Sample_call s 2]\<rparr>"
  apply (subst decode_loop.simps, simp add: demo_calls)
  apply (subst decode_loop.simps, simp add: demo_calls)
  apply (subst decode_loop.simps, simp add: demo_calls)
  done

lemma demo_translate:
  "llama_bridge_translate demo_backend ''Hello'' demo_globals demo_world =
     (Returned, demo_globals,
      \<lparr>live = {(LlamaModel, 0), (LlamaContext, 1)}, next_handle = 3, engine = 3,
       trace = [Memory_clear 1, Tokenize_call 69 (- 100), Tokenize_call 100 2,
                Decode_call 1 [1, 2] 0, Alloc LlamaSampler 2, Chain_add 2 Top_p,
                Chain_add 2 Temp, Chain_add 2 Dist,
                Sample_call 2 0, On_token ''a'', Decode_call 1 [0] 0,
                Sample_call 2 1, On_token ''a'', Decode_call 1 [1] 0,
                Sample_call 2 2, Release LlamaSampler 2]\<rparr>)"
  by (simp add: llama_bridge_translate_def demo_globals_def demo_world_def demo_calls
        length_resize length_overwrite demo_loop)
     (simp add: resize_def overwrite_def)

lemma least_count_translate:
  "llama_bridge_translate least_count_backend ''Hello'' demo_globals demo_world =
     (Threw_length_error, demo_globals,
      \<lparr>live = {(LlamaModel, 0), (LlamaContext, 1)}, next_handle = 2, engine = 0,
       trace = [Memory_clear 1, Tokenize_call 69 (- 2147483648)]\<rparr>)"
  by (simp add: llama_bridge_translate_def demo_globals_def demo_world_def least_count_backend_def
        demo_backend_def llama_memory_clear_def llama_tokenize_def emit_def)

section \<open>The step cap and the end-of-generation stop\<close>

text \<open>
  Claim C4. Every call of \<^verbatim>\<open>llama_bridge_translate\<close> performs at most 512 sampling
  steps and invokes \<^verbatim>\<open>on_token\<close> at most 512 times. Once a sampled token is an
  end-of-generation marker the loop stops at once: in the events of the call, the first
  sampling step that drew such a token is followed by the release of the sampler chain
  and by nothing else (no callback, no decode, no further sample); and at any iteration
  below the cap, the loop returns the world as the sampling step left it.
\<close>

theorem generation_bounded:
  "(\<exists>evs. trace (snd (snd (llama_bridge_translate B prompt g w))) = trace w @ evs \<and>
       length (filter is_on_token evs) \<le> 512 \<and> length (filter is_sample evs) \<le> 512 \<and>
       (\<forall>m. g_model g = Some m \<longrightarrow>
          from_eog B m evs = [] \<or>
          (\<exists>s tok. from_eog B m evs = [Sample_call s tok, Release LlamaSampler s]))) \<and>
   (i < 512 \<and> llama_sampler_sample B smpl c w0 = (tok0, w1) \<and> llama_is_eog B vocab tok0 \<longrightarrow>
      decode_loop B c vocab smpl i w0 = w1)"
proof
  show "i < 512 \<and> llama_sampler_sample B smpl c w0 = (tok0, w1) \<and> llama_is_eog B vocab tok0 \<longrightarrow>
      decode_loop B c vocab smpl i w0 = w1"
    by (subst decode_loop.simps) simp
next
  show "\<exists>evs. trace (snd (snd (llama_bridge_translate B prompt g w))) = trace w @ evs \<and>
       length (filter is_on_token evs) \<le> 512 \<and> length (filter is_sample evs) \<le> 512 \<and>
       (\<forall>m. g_model g = Some m \<longrightarrow>
          from_eog B m evs = [] \<or>
          (\<exists>s tok. from_eog B m evs = [Sample_call s tok, Release LlamaSampler s]))"
  proof (cases rule: translate_cases [where B = B and prompt = prompt and g = g and w = w])
    case idle
    show ?thesis by (rule exI[of _ "[]"]) (simp add: idle from_eog_def)
  next
    case (thrown c m e)
    show ?thesis
      by (rule exI[of _ "tokenize_prelude B c m prompt (engine w)"])
         (simp add: thrown prelude_on_token prelude_sample
            prelude_from_eog [where evs = "[]", simplified], simp add: from_eog_def)
  next
    case (tok c m e)
    show ?thesis
      by (rule exI[of _ "tokenize_prelude B c m prompt (engine w) @ [Log_error ''Tokenization failed'']"])
         (simp add: tok prelude_on_token prelude_sample prelude_from_eog, simp add: from_eog_def)
  next
    case (prefill c m e toks st)
    show ?thesis
      by (rule exI[of _ "tokenize_prelude B c m prompt (engine w) @
                           [Decode_call c toks st, Log_error ''Prefill failed'']"])
         (simp add: prefill prelude_on_token prelude_sample prelude_from_eog, simp add: from_eog_def)
  next
    case (run c m e toks evs)
    let ?s = "next_handle w"
    let ?evs = "tokenize_prelude B c m prompt (engine w) @
                   [Decode_call c toks 0, Alloc LlamaSampler ?s, Chain_add ?s Top_p,
                     Chain_add ?s Temp, Chain_add ?s Dist] @ evs @ [Release LlamaSampler ?s]"
    from run(4) have a: "length (filter is_on_token evs) \<le> 512" "length (filter is_sample evs) \<le> 512"
      and b: "from_eog B m evs = [] \<or> (\<exists>tok. from_eog B m evs = [Sample_call ?s tok])"
      by (auto simp: loop_events_ok_def)
    have fe: "from_eog B m ?evs = from_eog B m (evs @ [Release LlamaSampler ?s])"
      unfolding prelude_from_eog by (simp add: from_eog_def)
    have "from_eog B m ?evs = [] \<or>
       (\<exists>s tok. from_eog B m ?evs = [Sample_call s tok, Release LlamaSampler s])"
      unfolding fe using from_eog_loop_then_release [OF b] by blast
    moreover have "length (filter is_on_token ?evs) \<le> 512" "length (filter is_sample ?evs) \<le> 512"
      using a by (simp_all add: prelude_on_token prelude_sample)
    moreover have "trace (snd (snd (llama_bridge_translate B prompt g w))) = trace w @ ?evs"
      by (simp add: run(5))
    ultimately show ?thesis using run(2) by (intro exI[of _ ?evs]) simp
  qed
qed

theorem generation_bounded_witness:
  "length (filter is_on_token
     (trace (snd (snd (llama_bridge_translate demo_backend ''Hello'' demo_globals demo_world))))) \<le> 512 \<and>
   (0 :: int) < 512 \<and>
   llama_sampler_sample demo_backend 2 1 \<lparr>live = {}, next_handle = 3, engine = 2, trace = []\<rparr>
     = (2, \<lparr>live = {}, next_handle = 3, engine = 3, trace = [Sample_call 2 2]\<rparr>) \<and>
   llama_is_eog demo_backend 0 2 \<and>
   decode_loop demo_backend 1 0 2 0 \<lparr>live = {}, next_handle = 3, engine = 2, trace = []\<rparr>
     = \<lparr>live = {}, next_handle = 3, engine = 3, trace = [Sample_call 2 2]\<rparr>"
proof -
  let ?w0 = "\<lparr>live = {}, next_handle = 3, engine = 2 :: nat, trace = []\<rparr>"
  let ?w1 = "\<lparr>live = {}, next_handle = 3, engine = 3 :: nat, trace = [Sample_call 2 2]\<rparr>"
  let ?r = "llama_bridge_translate demo_backend ''Hello'' demo_globals demo_world"
  have s: "llama_sampler_sample demo_backend 2 1 ?w0 = (2, ?w1)"
    by (simp add: llama_sampler_sample_def demo_fields emit_def)
  have e: "llama_is_eog demo_backend 0 2" by (simp add: demo_fields)
  note gb = generation_bounded [where B = demo_backend and prompt = "''Hello''" and g = demo_globals
      and w = demo_world and i = 0 and smpl = 2 and c = 1 and ?w0.0 = ?w0 and ?tok0.0 = 2
      and ?w1.0 = ?w1 and vocab = 0]
  from gb obtain evs where "trace (snd (snd ?r)) = trace demo_world @ evs"
    "length (filter is_on_token evs) \<le> 512" by blast
  then have "length (filter is_on_token (trace (snd (snd ?r)))) \<le> 512" by (simp add: demo_world_def)
  moreover from gb s e have "decode_loop demo_backend 1 0 2 0 ?w0 = ?w1" by simp
  ultimately show ?thesis using s e by simp
qed

section \<open>The sampler chain\<close>

text \<open>
  Claim C5. Whenever a call of \<^verbatim>\<open>llama_bridge_translate\<close> creates a sampler chain, it
  creates exactly one, the release of that chain is the last event of the call, and the
  chain is not live when the call returns, whatever the engine does in the loop
  (end-of-generation break, failed step decode, cap reached). No sampler chain is live
  after the call that was not live before it, and in a well-formed world the heap after
  the call is the heap before it.
\<close>

theorem sampler_chain_released:
  "\<exists>evs. trace (snd (snd (llama_bridge_translate B prompt g w))) = trace w @ evs \<and>
      (\<forall>s. Alloc LlamaSampler s \<in> set evs \<longrightarrow>
         filter is_alloc evs = [Alloc LlamaSampler s] \<and>
         last evs = Release LlamaSampler s \<and>
         (LlamaSampler, s) \<notin> live (snd (snd (llama_bridge_translate B prompt g w)))) \<and>
      live_of LlamaSampler (snd (snd (llama_bridge_translate B prompt g w)))
        \<subseteq> live_of LlamaSampler w \<and>
      (wf_world w \<longrightarrow> live (snd (snd (llama_bridge_translate B prompt g w))) = live w)"
proof (cases rule: translate_cases [where B = B and prompt = prompt and g = g and w = w])
  case idle
  show ?thesis by (rule exI[of _ "[]"]) (simp add: idle)
next
  case (thrown c m e)
  show ?thesis
    by (rule exI[of _ "tokenize_prelude B c m prompt (engine w)"])
       (simp add: thrown prelude_no_alloc live_of_def)
next
  case (tok c m e)
  show ?thesis
    by (rule exI[of _ "tokenize_prelude B c m prompt (engine w) @ [Log_error ''Tokenization failed'']"])
       (simp add: tok prelude_no_alloc live_of_def)
next
  case (prefill c m e toks st)
  show ?thesis
    by (rule exI[of _ "tokenize_prelude B c m prompt (engine w) @
                         [Decode_call c toks st, Log_error ''Prefill failed'']"])
       (simp add: prefill prelude_no_alloc live_of_def)
next
  case (run c m e toks evs)
  let ?s = "next_handle w"
  let ?evs = "tokenize_prelude B c m prompt (engine w) @
                  [Decode_call c toks 0, Alloc LlamaSampler ?s,
                   Chain_add ?s Top_p, Chain_add ?s Temp,
                   Chain_add ?s Dist] @ evs @ [Release LlamaSampler ?s]"
  from run(4) have le: "list_all is_loop_event evs" by (simp add: loop_events_ok_def)
  have mem: "Alloc LlamaSampler s \<in> set ?evs \<Longrightarrow> s = ?s" for s
    using loop_events_no_alloc [OF le] by (auto simp: prelude_no_alloc)
  have fa: "filter is_alloc ?evs = [Alloc LlamaSampler ?s]"
    by (simp add: prelude_filter_alloc loop_events_filter_alloc [OF le])
  have wf: "wf_world w \<Longrightarrow> insert (LlamaSampler, ?s) (live w) - {(LlamaSampler, ?s)} = live w"
    by (auto simp: wf_world_def)
  show ?thesis
    apply (rule exI[of _ ?evs])
    apply (intro conjI allI impI)
    subgoal by (simp add: run(5))
    subgoal for s using mem [of s] fa by simp
    subgoal for s using mem [of s] by simp
    subgoal for s using mem [of s] by (simp add: run(5))
    subgoal by (auto simp: run(5) live_of_def)
    subgoal using wf by (simp add: run(5))
    done
qed

theorem sampler_chain_released_witness:
  "Alloc LlamaSampler 2 \<in>
     set (trace (snd (snd (llama_bridge_translate demo_backend ''Hello'' demo_globals demo_world)))) \<and>
   last (trace (snd (snd (llama_bridge_translate demo_backend ''Hello'' demo_globals demo_world))))
     = Release LlamaSampler 2 \<and>
   (LlamaSampler, 2) \<notin>
     live (snd (snd (llama_bridge_translate demo_backend ''Hello'' demo_globals demo_world))) \<and>
   wf_world demo_world \<and>
   live (snd (snd (llama_bridge_translate demo_backend ''Hello'' demo_globals demo_world)))
     = live demo_world"
proof -
  let ?r = "llama_bridge_translate demo_backend ''Hello'' demo_globals demo_world"
  have a: "Alloc LlamaSampler 2 \<in> set (trace (snd (snd ?r)))" by (simp add: demo_translate)
  have wf: "wf_world demo_world" by (simp add: wf_world_def demo_world_def)
  from sampler_chain_released [of demo_backend "''Hello''" demo_globals demo_world]
  obtain evs where t: "trace (snd (snd ?r)) = trace demo_world @ evs"
    and r: "\<forall>s. Alloc LlamaSampler s \<in> set evs \<longrightarrow>
         filter is_alloc evs = [Alloc LlamaSampler s] \<and>
         last evs = Release LlamaSampler s \<and> (LlamaSampler, s) \<notin> live (snd (snd ?r))"
    and l: "wf_world demo_world \<longrightarrow> live (snd (snd ?r)) = live demo_world"
    by blast
  from t have te: "trace (snd (snd ?r)) = evs" by (simp add: demo_world_def)
  from a r have "last evs = Release LlamaSampler 2" "(LlamaSampler, 2) \<notin> live (snd (snd ?r))"
    unfolding te by blast+
  with a wf l show ?thesis unfolding te by blast
qed

section \<open>Tokenization retry\<close>

text \<open>At the least \<^verbatim>\<open>int\<close> the tokenizer reports no size: the negation of the count is
  not an \<^verbatim>\<open>int\<close>, \<^verbatim>\<open>toks.resize(-n)\<close> throws, and the call ends after the one tokenizer
  call, with no callback and with the globals and the heap as they were.\<close>

lemma least_count_throws:
  assumes gc: "l_g_ctx g = Some c" and gm: "g_model g = Some m"
      and n0: "n0 = fst (llama_tokens B m prompt (of_nat (length prompt))
                           (of_nat (length prompt + 64)) (llama_clear B c (engine w)))"
      and least: "sint n0 = - 2147483648"
  shows "\<exists>e. llama_bridge_translate B prompt g w =
           (Threw_length_error, g,
            w\<lparr>engine := e,
              trace := trace w @ [Memory_clear c, Tokenize_call (length prompt + 64) (sint n0)]\<rparr>)"
proof -
  have fc: "first_count B c m prompt (engine w) = n0" by (simp add: first_count_def n0)
  from least have "sint n0 < 0" by simp
  with least have thr: "resize_throws B c m prompt (engine w)"
    by (simp add: resize_throws_def fc sint_neg_least)
  then have pre: "tokenize_prelude B c m prompt (engine w) =
                    [Memory_clear c, Tokenize_call (length prompt + 64) (sint n0)]"
    by (simp add: tokenize_prelude_def fc)
  show ?thesis
  proof (cases rule: translate_cases [where B = B and prompt = prompt and g = g and w = w])
    case idle
    with gc gm show ?thesis by simp
  next
    case (thrown c' m' e)
    with gc gm have [simp]: "c' = c" "m' = m" by simp_all
    from thrown(4) have "llama_bridge_translate B prompt g w =
           (Threw_length_error, g,
            w\<lparr>engine := e,
              trace := trace w @ [Memory_clear c, Tokenize_call (length prompt + 64) (sint n0)]\<rparr>)"
      by (simp add: pre)
    then show ?thesis by (rule exI)
  next
    case (tok c' m' e)
    with gc gm thr show ?thesis by simp
  next
    case (prefill c' m' e toks st)
    with gc gm thr show ?thesis by simp
  next
    case (run c' m' e toks evs)
    with gc gm thr show ?thesis by simp
  qed
qed



section \<open>Handles across failing run calls\<close>

lemma transcribe_effect:
  "\<exists>tx e evs. whisper_bridge_transcribe B pcm n lang g w =
       (tx, g, w\<lparr>engine := e, trace := trace w @ evs\<rparr>) \<and>
     filter is_release evs = [] \<and>
     (\<forall>c. w_g_ctx g = Some c \<longrightarrow> (\<exists>st rest. evs = Whisper_full c st # rest))"
proof (cases "w_g_ctx g")
  case None
  then have "whisper_bridge_transcribe B pcm n lang g w = ('''', g, w\<lparr>engine := engine w, trace := trace w @ []\<rparr>)"
    by (simp add: whisper_bridge_transcribe_def)
  with None show ?thesis by (intro exI[of _ "''''"] exI[of _ "engine w"] exI[of _ "[]"]) simp
next
  case (Some c)
  obtain st e where wr: "whisper_run B c (transcribe_params lang (w_g_threads g)) pcm n (engine w) = (st, e)"
    by (cases "whisper_run B c (transcribe_params lang (w_g_threads g)) pcm n (engine w)")
  have wf: "whisper_full B c (transcribe_params lang (w_g_threads g)) pcm n w =
              (st, w\<lparr>engine := e, trace := trace w @ [Whisper_full c st]\<rparr>)"
    by (simp add: whisper_full_def wr emit_def)
  show ?thesis
  proof (cases "st = 0")
    case True
    with Some wf show ?thesis
      by (intro exI[of _ "fst (whisper_bridge_transcribe B pcm n lang g w)"] exI[of _ e]
                exI[of _ "[Whisper_full c st]"])
         (simp add: whisper_bridge_transcribe_def)
  next
    case False
    with Some wf show ?thesis
      by (intro exI[of _ "''''"] exI[of _ e]
                exI[of _ "[Whisper_full c st, Log_error ''whisper_full() failed'']"])
         (simp add: whisper_bridge_transcribe_def emit_def)
  qed
qed

lemma translate_effect:
  "\<exists>r w' evs. llama_bridge_translate B prompt g w = (r, g, w') \<and>
     trace w' = trace w @ evs \<and>
     (\<forall>k h. Release k h \<in> set evs \<longrightarrow> k = LlamaSampler) \<and>
     (\<forall>k. k \<noteq> LlamaSampler \<longrightarrow> live_of k w' = live_of k w) \<and>
     (\<forall>c m. l_g_ctx g = Some c \<and> g_model g = Some m \<longrightarrow> (\<exists>rest. evs = Memory_clear c # rest))"
proof (cases rule: translate_cases [where B = B and prompt = prompt and g = g and w = w])
  case idle
  then show ?thesis by (intro exI[of _ Returned] exI[of _ w] exI[of _ "[]"]) auto
next
  case (thrown c m e)
  show ?thesis
    by (intro exI[of _ Threw_length_error] exI[of _ "snd (snd (llama_bridge_translate B prompt g w))"]
          exI[of _ "tokenize_prelude B c m prompt (engine w)"])
       (simp add: thrown prelude_no_release live_of_def, simp add: tokenize_prelude_def)
next
  case (tok c m e)
  show ?thesis
    by (intro exI[of _ Returned] exI[of _ "snd (snd (llama_bridge_translate B prompt g w))"]
          exI[of _ "tokenize_prelude B c m prompt (engine w) @ [Log_error ''Tokenization failed'']"])
       (simp add: tok prelude_no_release live_of_def, simp add: tokenize_prelude_def)
next
  case (prefill c m e toks st)
  show ?thesis
    by (intro exI[of _ Returned] exI[of _ "snd (snd (llama_bridge_translate B prompt g w))"]
          exI[of _ "tokenize_prelude B c m prompt (engine w) @
                         [Decode_call c toks st, Log_error ''Prefill failed'']"])
       (simp add: prefill prelude_no_release live_of_def, simp add: tokenize_prelude_def)
next
  case (run c m e toks evs)
  from run(4) have le: "list_all is_loop_event evs" by (simp add: loop_events_ok_def)
  show ?thesis
    apply (intro exI[of _ Returned] exI[of _ "snd (snd (llama_bridge_translate B prompt g w))"]
          exI[of _ "tokenize_prelude B c m prompt (engine w) @
                  [Decode_call c toks 0, Alloc LlamaSampler (next_handle w),
                   Chain_add (next_handle w) Top_p, Chain_add (next_handle w) Temp,
                   Chain_add (next_handle w) Dist] @ evs @ [Release LlamaSampler (next_handle w)]"])
    apply (intro conjI allI impI)
    subgoal by (simp add: run(5))
    subgoal by (simp add: run(5))
    subgoal using loop_events_no_release [OF le] by (auto simp: prelude_no_release)
    subgoal by (auto simp: run(5) live_of_def)
    subgoal by (simp add: run tokenize_prelude_def)
    done
qed

text \<open>
  Claim C7. No call of \<^verbatim>\<open>whisper_bridge_transcribe\<close> or \<^verbatim>\<open>llama_bridge_translate\<close>,
  and so none that fails at the decode stage or at tokenization, changes the globals or
  tears down an engine object: the handle (and context) pointers are the same after the
  call, the live ASR contexts, models and inference contexts are the same, and the only
  thing the call ever releases is the sampler chain of a translate call. Hence the next
  call with the same handle passes the guard again: it reaches \<^verbatim>\<open>whisper_full\<close>,
  respectively the memory clear that opens a translation.
\<close>

theorem handles_survive_run_calls:
  "(case whisper_bridge_transcribe B pcm n lang g w of (tx, g', w') \<Rightarrow>
      g' = g \<and> live w' = live w \<and>
      (\<exists>evs. trace w' = trace w @ evs \<and> filter is_release evs = []) \<and>
      (\<forall>c. w_g_ctx g = Some c \<longrightarrow>
         (\<exists>st rest. trace (snd (snd (whisper_bridge_transcribe B pcm2 n2 lang2 g' w'))) =
                       trace w' @ Whisper_full c st # rest))) \<and>
   (case llama_bridge_translate B' prompt lg lw of (r, lg', lw') \<Rightarrow>
      lg' = lg \<and>
      live_of LlamaModel lw' = live_of LlamaModel lw \<and>
      live_of LlamaContext lw' = live_of LlamaContext lw \<and>
      live_of WhisperContext lw' = live_of WhisperContext lw \<and>
      (\<exists>evs. trace lw' = trace lw @ evs \<and> (\<forall>k h. Release k h \<in> set evs \<longrightarrow> k = LlamaSampler)) \<and>
      (\<forall>c m. l_g_ctx lg = Some c \<and> g_model lg = Some m \<longrightarrow>
         (\<exists>rest. trace (snd (snd (llama_bridge_translate B' prompt2 lg' lw'))) =
                    trace lw' @ Memory_clear c # rest)))"
proof
  obtain tx e evs where a: "whisper_bridge_transcribe B pcm n lang g w =
       (tx, g, w\<lparr>engine := e, trace := trace w @ evs\<rparr>)" and b: "filter is_release evs = []"
    using transcribe_effect [of B pcm n lang g w] by blast
  have c: "w_g_ctx g = Some c \<Longrightarrow> \<exists>st rest.
      trace (snd (snd (whisper_bridge_transcribe B pcm2 n2 lang2 g (w\<lparr>engine := e, trace := trace w @ evs\<rparr>)))) =
        trace (w\<lparr>engine := e, trace := trace w @ evs\<rparr>) @ Whisper_full c st # rest" for c
    using transcribe_effect [of B pcm2 n2 lang2 g "w\<lparr>engine := e, trace := trace w @ evs\<rparr>"]
    by fastforce
  show "case whisper_bridge_transcribe B pcm n lang g w of (tx, g', w') \<Rightarrow>
      g' = g \<and> live w' = live w \<and>
      (\<exists>evs. trace w' = trace w @ evs \<and> filter is_release evs = []) \<and>
      (\<forall>c. w_g_ctx g = Some c \<longrightarrow>
         (\<exists>st rest. trace (snd (snd (whisper_bridge_transcribe B pcm2 n2 lang2 g' w'))) =
                       trace w' @ Whisper_full c st # rest))"
    unfolding a using b c by simp
next
  obtain r w' evs where a: "llama_bridge_translate B' prompt lg lw = (r, lg, w')"
    and t: "trace w' = trace lw @ evs"
    and rl: "\<forall>k h. Release k h \<in> set evs \<longrightarrow> k = LlamaSampler"
    and l: "\<forall>k. k \<noteq> LlamaSampler \<longrightarrow> live_of k w' = live_of k lw"
    using translate_effect [of B' prompt lg lw] by blast
  have c: "l_g_ctx lg = Some c \<and> g_model lg = Some m \<Longrightarrow> \<exists>rest.
      trace (snd (snd (llama_bridge_translate B' prompt2 lg w'))) = trace w' @ Memory_clear c # rest" for c m
    using translate_effect [of B' prompt2 lg w'] by fastforce
  show "case llama_bridge_translate B' prompt lg lw of (r, lg', lw') \<Rightarrow>
      lg' = lg \<and>
      live_of LlamaModel lw' = live_of LlamaModel lw \<and>
      live_of LlamaContext lw' = live_of LlamaContext lw \<and>
      live_of WhisperContext lw' = live_of WhisperContext lw \<and>
      (\<exists>evs. trace lw' = trace lw @ evs \<and> (\<forall>k h. Release k h \<in> set evs \<longrightarrow> k = LlamaSampler)) \<and>
      (\<forall>c m. l_g_ctx lg = Some c \<and> g_model lg = Some m \<longrightarrow>
         (\<exists>rest. trace (snd (snd (llama_bridge_translate B' prompt2 lg' lw'))) =
                    trace lw' @ Memory_clear c # rest))"
    unfolding a using t rl l c by auto
qed

theorem handles_survive_run_calls_witness:
  "fst (whisper_run demo_backend 0 (transcribe_params ''en'' 4) ([] :: int list) 0 0) = 1 \<and>
   fst (snd (whisper_bridge_transcribe demo_backend [] 0 ''en'' demo_asr_globals demo_asr_world))
     = demo_asr_globals \<and>
   live (snd (snd (whisper_bridge_transcribe demo_backend [] 0 ''en'' demo_asr_globals demo_asr_world)))
     = live demo_asr_world \<and>
   final_count demo_backend 1 0 '''' 0 = 0 \<and>
   fst (snd (llama_bridge_translate demo_backend '''' demo_globals demo_world)) = demo_globals \<and>
   live_of LlamaModel (snd (snd (llama_bridge_translate demo_backend '''' demo_globals demo_world)))
     = live_of LlamaModel demo_world \<and>
   live_of LlamaContext (snd (snd (llama_bridge_translate demo_backend '''' demo_globals demo_world)))
     = live_of LlamaContext demo_world"
proof -
  have f1: "fst (whisper_run demo_backend 0 (transcribe_params ''en'' 4) ([] :: int list) 0 0) = 1"
    by (simp add: demo_backend_def)
  have f2: "final_count demo_backend 1 0 '''' 0 = 0"
    by (simp add: final_count_def first_count_def retry_count_def demo_fields)
  note h = handles_survive_run_calls [where B = demo_backend and pcm = "[]" and n = 0
      and lang = "''en''" and g = demo_asr_globals and w = demo_asr_world
      and B' = demo_backend and prompt = "''''" and lg = demo_globals and lw = demo_world]
  from h f1 f2 show ?thesis by (simp add: case_prod_unfold)
qed

section \<open>Re-initialising the ASR bridge\<close>

text \<open>The whole effect of \<^verbatim>\<open>whisper_bridge_init\<close>, by the outcome of the load.\<close>

lemma whisper_init_effect:
  "\<exists>ok e rest. whisper_bridge_init B path thr g w =
      (ok, g\<lparr>w_g_ctx := (if ok then Some (next_handle w) else None), w_g_threads := thr\<rparr>,
       w\<lparr>live := (if ok then insert (WhisperContext, next_handle w) else id)
                   (live w - (case w_g_ctx g of None \<Rightarrow> {} | Some h \<Rightarrow> {(WhisperContext, h)})),
         next_handle := (if ok then Suc (next_handle w) else next_handle w),
         engine := e,
         trace := trace w @ (case w_g_ctx g of None \<Rightarrow> [] | Some h \<Rightarrow> [Release WhisperContext h])
                    @ Load_attempt WhisperContext path # rest\<rparr>) \<and>
      filter is_release rest = []"
proof -
  define pre where "pre = (case w_g_ctx g of None \<Rightarrow> [] | Some h \<Rightarrow> [Release WhisperContext h])"
  define L where "L = live w - (case w_g_ctx g of None \<Rightarrow> {} | Some h \<Rightarrow> {(WhisperContext, h)})"
  obtain ok e where lo: "whisper_load_ok B path \<lparr>use_gpu = False\<rparr> (engine w) = (ok, e)"
    by (cases "whisper_load_ok B path \<lparr>use_gpu = False\<rparr> (engine w)")
  show ?thesis
  proof (cases ok)
    case True
    with lo show ?thesis
      by (intro exI[of _ True] exI[of _ e]
            exI[of _ "[Alloc WhisperContext (next_handle w),
                       Log_info (''Whisper model loaded OK from '' @ path)]"])
         (cases w, simp add: whisper_bridge_init_def whisper_init_from_file_with_params_def
            whisper_free_def release_def emit_def alloc_def split: option.splits)
  next
    case False
    with lo show ?thesis
      by (intro exI[of _ False] exI[of _ e]
            exI[of _ "[Log_error (''Failed to load: '' @ path)]"])
         (cases w, simp add: whisper_bridge_init_def whisper_init_from_file_with_params_def
            whisper_free_def release_def emit_def alloc_def split: option.splits)
  qed
qed

text \<open>The ASR bridge keeps at most one live context: when the only live context is the
  one the global points to, the same holds after any init.\<close>

lemma whisper_init_single_handle:
  assumes wf: "wf_world w" and inv: "live_of WhisperContext w \<subseteq> set_option (w_g_ctx g)"
  shows "case whisper_bridge_init B path thr g w of (ok, g', w') \<Rightarrow>
           live_of WhisperContext w' = set_option (w_g_ctx g') \<and> wf_world w' \<and>
           (ok \<longleftrightarrow> w_g_ctx g' \<noteq> None)"
proof -
  from whisper_init_effect [of B path thr g w] obtain ok e rest where
    r: "whisper_bridge_init B path thr g w =
      (ok, g\<lparr>w_g_ctx := (if ok then Some (next_handle w) else None), w_g_threads := thr\<rparr>,
       w\<lparr>live := (if ok then insert (WhisperContext, next_handle w) else id)
                   (live w - (case w_g_ctx g of None \<Rightarrow> {} | Some h \<Rightarrow> {(WhisperContext, h)})),
         next_handle := (if ok then Suc (next_handle w) else next_handle w),
         engine := e,
         trace := trace w @ (case w_g_ctx g of None \<Rightarrow> [] | Some h \<Rightarrow> [Release WhisperContext h])
                    @ Load_attempt WhisperContext path # rest\<rparr>)"
    by blast
  show ?thesis unfolding r using wf inv
    by (auto simp: live_of_def wf_world_def less_Suc_eq split: option.splits)
qed

text \<open>While the handle pointer is null, every transcribe of a call sequence returns the
  empty string, up to the first init that succeeds.\<close>

lemma run_calls_no_handle:
  "w_g_ctx g = None \<Longrightarrow>
   \<forall>r \<in> set (takeWhile (\<lambda>r. r \<noteq> Init_result True) (run_calls B cs g w)).
     \<forall>t. r = Text_result t \<longrightarrow> t = ''''"
proof (induction cs arbitrary: g w)
  case Nil
  show ?case by simp
next
  case (Cons call cs)
  show ?case
  proof (cases call)
    case (Call_init path thr)
    from whisper_init_effect [of B path thr g w] obtain ok g' w' where
      r: "whisper_bridge_init B path thr g w = (ok, g', w')" and n: "\<not> ok \<Longrightarrow> w_g_ctx g' = None"
      by force
    show ?thesis
    proof (cases ok)
      case True
      then show ?thesis by (simp add: Call_init r)
    next
      case False
      with Cons.IH [OF n, of w'] show ?thesis by (simp add: Call_init r)
    qed
  next
    case (Call_transcribe pcm n lang)
    from Cons.prems have "whisper_bridge_transcribe B pcm n lang g w = ('''', g, w)"
      by (simp add: whisper_bridge_transcribe_def)
    with Cons.IH [OF Cons.prems, of w] show ?thesis by (simp add: Call_transcribe)
  next
    case Call_free
    from Cons.prems have "whisper_bridge_free g w = (g, w)"
      by (simp add: whisper_bridge_free_def)
    with Cons.IH [OF Cons.prems, of w] show ?thesis by (simp add: Call_free)
  qed
qed

text \<open>
  Claim C10. When \<^verbatim>\<open>whisper_bridge_init\<close> is called while a handle \<open>h\<close> is held, the
  release of \<open>h\<close> is the first event of the call and the load attempt the second, whether
  the load then succeeds or not, and nothing else is released. When the call fails, the
  handle pointer is null and \<open>h\<close> is not live afterwards, and in every sequence of later
  calls each transcribe made before the next successful init returns the empty string.
\<close>

theorem failed_reinit_leaves_no_handle:
  assumes h: "w_g_ctx g = Some h"
  shows "case whisper_bridge_init B path thr g w of (ok, g', w') \<Rightarrow>
     (\<exists>rest. trace w' = trace w @ Release WhisperContext h # Load_attempt WhisperContext path # rest \<and>
             filter is_release rest = []) \<and>
     (\<not> ok \<longrightarrow> w_g_ctx g' = None \<and> (WhisperContext, h) \<notin> live w' \<and>
        (\<forall>cs. \<forall>r \<in> set (takeWhile (\<lambda>r. r \<noteq> Init_result True) (run_calls B cs g' w')).
           \<forall>t. r = Text_result t \<longrightarrow> t = ''''))"
proof -
  from whisper_init_effect [of B path thr g w] obtain ok e rest where
    r: "whisper_bridge_init B path thr g w =
      (ok, g\<lparr>w_g_ctx := (if ok then Some (next_handle w) else None), w_g_threads := thr\<rparr>,
       w\<lparr>live := (if ok then insert (WhisperContext, next_handle w) else id)
                   (live w - (case w_g_ctx g of None \<Rightarrow> {} | Some h \<Rightarrow> {(WhisperContext, h)})),
         next_handle := (if ok then Suc (next_handle w) else next_handle w),
         engine := e,
         trace := trace w @ (case w_g_ctx g of None \<Rightarrow> [] | Some h \<Rightarrow> [Release WhisperContext h])
                    @ Load_attempt WhisperContext path # rest\<rparr>)"
    and nr: "filter is_release rest = []"
    by blast
  have tail: "\<forall>r \<in> set (takeWhile (\<lambda>r. r \<noteq> Init_result True)
                  (run_calls B cs (g\<lparr>w_g_ctx := None, w_g_threads := thr\<rparr>) w'')).
              \<forall>t. r = Text_result t \<longrightarrow> t = ''''" for cs w''
    by (rule run_calls_no_handle) simp
  show ?thesis unfolding r using nr h tail by simp
qed

theorem failed_reinit_leaves_no_handle_witness:
  "w_g_ctx demo_asr_globals = Some 0 \<and>
   fst (whisper_bridge_init demo_backend ''missing.bin'' 4 demo_asr_globals demo_asr_world) = False \<and>
   take 2 (trace (snd (snd (whisper_bridge_init demo_backend ''missing.bin'' 4
                              demo_asr_globals demo_asr_world))))
     = [Release WhisperContext 0, Load_attempt WhisperContext ''missing.bin''] \<and>
   w_g_ctx (fst (snd (whisper_bridge_init demo_backend ''missing.bin'' 4
                        demo_asr_globals demo_asr_world))) = None \<and>
   (WhisperContext, 0) \<notin>
     live (snd (snd (whisper_bridge_init demo_backend ''missing.bin'' 4
                       demo_asr_globals demo_asr_world)))"
proof -
  let ?r = "whisper_bridge_init demo_backend ''missing.bin'' 4 demo_asr_globals demo_asr_world"
  have h: "w_g_ctx demo_asr_globals = Some 0" by (simp add: demo_asr_globals_def)
  have f: "fst ?r = False"
    by (simp add: whisper_bridge_init_def whisper_init_from_file_with_params_def demo_backend_def
          demo_asr_globals_def emit_def split: prod.splits)
  from failed_reinit_leaves_no_handle [OF h, where B = demo_backend and path = "''missing.bin''"
      and thr = 4 and w = demo_asr_world] f
  have "\<exists>rest. trace (snd (snd ?r)) = trace demo_asr_world @
            Release WhisperContext 0 # Load_attempt WhisperContext ''missing.bin'' # rest"
    and "w_g_ctx (fst (snd ?r)) = None" and "(WhisperContext, 0) \<notin> live (snd (snd ?r))"
    by (auto simp: case_prod_unfold)
  then show ?thesis using h f by (auto simp: demo_asr_world_def)
qed

section \<open>Re-initialising the translation bridge\<close>

text \<open>What a successful \<^verbatim>\<open>llama_bridge_init\<close> does to the heap: it allocates a model and
  a context and releases nothing, so a pair that was live before stays live.\<close>

lemma llama_init_success_effect:
  assumes ok: "fst (llama_bridge_init B path thr ctx_len g w)"
  shows "\<exists>e. llama_bridge_init B path thr ctx_len g w =
           (True, \<lparr>g_model = Some (next_handle w), l_g_ctx = Some (Suc (next_handle w)),
                   l_g_threads = thr\<rparr>,
            w\<lparr>live := insert (LlamaContext, Suc (next_handle w))
                        (insert (LlamaModel, next_handle w) (live w)),
              next_handle := Suc (Suc (next_handle w)), engine := e,
              trace := trace w @ [Load_attempt LlamaModel path, Alloc LlamaModel (next_handle w),
                                  Alloc LlamaContext (Suc (next_handle w)),
                                  Log_info ''Model loaded.'']\<rparr>)"
  using ok
  by (cases w, cases g)
     (auto simp: llama_bridge_init_def llama_model_load_from_file_def llama_init_from_model_def
        emit_def alloc_def Let_def split: prod.splits if_splits)

lemma llama_reinit_leaks:
  assumes ok: "fst (llama_bridge_init B path thr ctx_len g w)"
      and m: "g_model g = Some m0" "(LlamaModel, m0) \<in> live w"
      and c: "l_g_ctx g = Some c0" "(LlamaContext, c0) \<in> live w"
      and wf: "wf_world w"
  shows "case llama_bridge_init B path thr ctx_len g w of (r, g', w') \<Rightarrow>
           (LlamaModel, m0) \<in> live w' \<and> (LlamaContext, c0) \<in> live w' \<and>
           g_model g' \<noteq> Some m0 \<and> l_g_ctx g' \<noteq> Some c0 \<and>
           (\<exists>m1. g_model g' = Some m1 \<and> {m0, m1} \<subseteq> live_of LlamaModel w')"
proof -
  from llama_init_success_effect [OF ok] obtain e where
    r: "llama_bridge_init B path thr ctx_len g w =
           (True, \<lparr>g_model = Some (next_handle w), l_g_ctx = Some (Suc (next_handle w)),
                   l_g_threads = thr\<rparr>,
            w\<lparr>live := insert (LlamaContext, Suc (next_handle w))
                        (insert (LlamaModel, next_handle w) (live w)),
              next_handle := Suc (Suc (next_handle w)), engine := e,
              trace := trace w @ [Load_attempt LlamaModel path, Alloc LlamaModel (next_handle w),
                                  Alloc LlamaContext (Suc (next_handle w)),
                                  Log_info ''Model loaded.'']\<rparr>)" by blast
  from wf m(2) c(2) have "m0 < next_handle w" "c0 < next_handle w"
    by (auto simp: wf_world_def)
  then show ?thesis unfolding r using m c by (auto simp: live_of_def)
qed

text \<open>
  Claim C1 asks that a successful init releases the prior handle of its kind, so that
  at most one is live. \<^verbatim>\<open>whisper_bridge_init\<close> does (lemma \<open>whisper_init_single_handle\<close>
  above); \<^verbatim>\<open>llama_bridge_init\<close> overwrites \<^verbatim>\<open>g_model\<close> and \<^verbatim>\<open>g_ctx\<close> without
  freeing what they pointed to. Two successful inits in a row on the concrete engine:
  after the second, both models and both contexts are live, the globals point to the
  new pair, and no release has happened.
\<close>

theorem llama_reinit_two_live_models:
  "llama_bridge_init demo_backend ''model.gguf'' 4 2048 llama_globals_init (world_init 0) =
     (True, \<lparr>g_model = Some 0, l_g_ctx = Some 1, l_g_threads = 4\<rparr>,
      \<lparr>live = {(LlamaContext, 1), (LlamaModel, 0)}, next_handle = 2, engine = 0,
       trace = [Load_attempt LlamaModel ''model.gguf'', Alloc LlamaModel 0, Alloc LlamaContext 1,
                Log_info ''Model loaded.'']\<rparr>) \<and>
   llama_bridge_init demo_backend ''model.gguf'' 4 2048
       \<lparr>g_model = Some 0, l_g_ctx = Some 1, l_g_threads = 4\<rparr>
       \<lparr>live = {(LlamaContext, 1), (LlamaModel, 0)}, next_handle = 2, engine = 0,
       trace = [Load_attempt LlamaModel ''model.gguf'', Alloc LlamaModel 0, Alloc LlamaContext 1,
                Log_info ''Model loaded.'']\<rparr> =
     (True, \<lparr>g_model = Some 2, l_g_ctx = Some 3, l_g_threads = 4\<rparr>,
      \<lparr>live = {(LlamaContext, 3), (LlamaModel, 2), (LlamaContext, 1), (LlamaModel, 0)},
       next_handle = 4, engine = 0,
       trace = [Load_attempt LlamaModel ''model.gguf'', Alloc LlamaModel 0, Alloc LlamaContext 1,
                Log_info ''Model loaded.'',
                Load_attempt LlamaModel ''model.gguf'', Alloc LlamaModel 2, Alloc LlamaContext 3,
                Log_info ''Model loaded.'']\<rparr>)"
  by (simp add: llama_bridge_init_def llama_model_load_from_file_def llama_init_from_model_def
        demo_backend_def llama_globals_init_def world_init_def emit_def alloc_def)

end
